theory Spec2Isabelle
  imports Main "HOL-Library.Sublist"
begin

section \<open>Strings\<close>

text \<open>
  JavaScript strings are sequences of UTF-16 code units. They are modelled as HOL strings,
  whose characters are the code units below 256 (ASCII and Latin-1); on that range
  \<open>trim\<close>, \<open>toLowerCase\<close> and the regular-expression classes \<open>\s\<close> and \<open>\d\<close> are as
  ECMAScript defines them. A string is truthy iff it is not empty.
\<close>

definition isWhitespace :: "char \<Rightarrow> bool" where
  "isWhitespace c \<longleftrightarrow> (of_char c :: nat) \<in> {9, 10, 11, 12, 13, 32, 160}"

definition trim :: "string \<Rightarrow> string" where
  "trim s = rev (dropWhile isWhitespace (rev (dropWhile isWhitespace s)))"

definition isDigit :: "char \<Rightarrow> bool" where
  "isDigit c \<longleftrightarrow> 48 \<le> (of_char c :: nat) \<and> (of_char c :: nat) \<le> 57"

definition isLowerAlnumDash :: "char \<Rightarrow> bool" where
  "isLowerAlnumDash c \<longleftrightarrow>
     (97 \<le> (of_char c :: nat) \<and> (of_char c :: nat) \<le> 122) \<or> isDigit c \<or> c = CHR ''-''"

text \<open>The letters with a lower-case form on this range: \<open>A\<close> to \<open>Z\<close>, and the Latin-1
  capitals \<open>0xC0\<close> to \<open>0xDE\<close> without the multiplication sign \<open>0xD7\<close>.\<close>

definition upperChars :: string where
  "upperChars = ''ABCDEFGHIJKLMNOPQRSTUVWXYZ''
       @ [CHR 0xC0, CHR 0xC1, CHR 0xC2, CHR 0xC3, CHR 0xC4, CHR 0xC5, CHR 0xC6, CHR 0xC7,
          CHR 0xC8, CHR 0xC9, CHR 0xCA, CHR 0xCB, CHR 0xCC, CHR 0xCD, CHR 0xCE, CHR 0xCF,
          CHR 0xD0, CHR 0xD1, CHR 0xD2, CHR 0xD3, CHR 0xD4, CHR 0xD5, CHR 0xD6, CHR 0xD8,
          CHR 0xD9, CHR 0xDA, CHR 0xDB, CHR 0xDC, CHR 0xDD, CHR 0xDE]"

definition lowerChars :: string where
  "lowerChars = ''abcdefghijklmnopqrstuvwxyz''
       @ [CHR 0xE0, CHR 0xE1, CHR 0xE2, CHR 0xE3, CHR 0xE4, CHR 0xE5, CHR 0xE6, CHR 0xE7,
          CHR 0xE8, CHR 0xE9, CHR 0xEA, CHR 0xEB, CHR 0xEC, CHR 0xED, CHR 0xEE, CHR 0xEF,
          CHR 0xF0, CHR 0xF1, CHR 0xF2, CHR 0xF3, CHR 0xF4, CHR 0xF5, CHR 0xF6, CHR 0xF8,
          CHR 0xF9, CHR 0xFA, CHR 0xFB, CHR 0xFC, CHR 0xFD, CHR 0xFE]"

definition toLowerChar :: "char \<Rightarrow> char" where
  "toLowerChar c = (case map_of (zip upperChars lowerChars) c of None \<Rightarrow> c | Some l \<Rightarrow> l)"

definition toLowerCase :: "string \<Rightarrow> string" where
  "toLowerCase s = map toLowerChar s"

definition startsWith :: "string \<Rightarrow> string \<Rightarrow> bool" where
  "startsWith s p \<longleftrightarrow> take (length p) s = p"

text \<open>\<open>s.replace(/C{n,}/g, r)\<close> for a character class \<open>C\<close>: every maximal run of at least
  \<open>n\<close> characters of the class is replaced by \<open>r\<close> (\<open>n = 1\<close> is \<open>/C+/g\<close>).\<close>

function replaceRuns :: "nat \<Rightarrow> (char \<Rightarrow> bool) \<Rightarrow> string \<Rightarrow> string \<Rightarrow> string" where
  "replaceRuns n P r [] = []"
| "replaceRuns n P r (c # cs) =
     (if P c
      then (if n \<le> Suc (length (takeWhile P cs)) then r else c # takeWhile P cs)
             @ replaceRuns n P r (dropWhile P cs)
      else c # replaceRuns n P r cs)"
  by pat_completeness auto
termination
  by (relation "measure (\<lambda>(n, P, r, s). length s)")
     (auto simp: le_imp_less_Suc length_dropWhile_le)

text \<open>
  A JavaScript number is a double. The code modelled here never computes with the numbers
  of an allow-list or with the type of a forwarded snapshot: it only prints them, with
  \<open>String(n)\<close> or in a template literal. Such a number is represented by the text that
  \<open>Number::toString\<close> of ECMAScript gives for it, the shortest digits that read back as the
  same double: \<open>42\<close> for 42, \<open>1.5\<close> for 1.5, \<open>1152921504606847000\<close> for \<open>2 ^ 60\<close>,
  \<open>1e+21\<close> for \<open>10 ^ 21\<close>, \<open>NaN\<close>. Printing a number returns that text.
\<close>

datatype number = Number string

fun numberToString :: "number \<Rightarrow> string" where
  "numberToString (Number printed) = printed"

fun joinWith :: "string \<Rightarrow> string list \<Rightarrow> string" where
  "joinWith sep [] = []"
| "joinWith sep [x] = x"
| "joinWith sep (x # y # ys) = x @ sep @ joinWith sep (y # ys)"

section \<open>Allow-lists\<close>

text \<open>An entry of a configured allow-list is a string or a number
  (\<open>Array<string | number>\<close>).\<close>

datatype raw_entry = RawStr string | RawNum number

fun String :: "raw_entry \<Rightarrow> string" where
  "String (RawStr s) = s"
| "String (RawNum n) = numberToString n"

record DiscordAllowList =
  allowAll :: bool
  ids :: "string set"
  names :: "string set"

text \<open>\<open>normalizeDiscordName\<close>: a missing or empty value gives the empty string.\<close>

definition normalizeDiscordName :: "string option \<Rightarrow> string" where
  "normalizeDiscordName v =
     (case v of None \<Rightarrow> [] | Some s \<Rightarrow> if s = [] then [] else toLowerCase (trim s))"

definition normalizeDiscordSlug :: "string option \<Rightarrow> string" where
  "normalizeDiscordSlug v =
     (case v of None \<Rightarrow> []
      | Some s \<Rightarrow>
          if s = [] then []
          else let text = toLowerCase (trim s)
               in if text = [] then []
                  else let text = dropWhile (\<lambda>c. c = CHR ''@'' \<or> c = CHR ''#'') text;
                           text = replaceRuns 1 (\<lambda>c. isWhitespace c \<or> c = CHR ''_'') ''-'' text;
                           text = replaceRuns 1 (\<lambda>c. \<not> isLowerAlnumDash c) ''-'' text;
                           text = replaceRuns 2 (\<lambda>c. c = CHR ''-'') ''-'' text
                       in rev (dropWhile (\<lambda>c. c = CHR ''-'')
                                 (rev (dropWhile (\<lambda>c. c = CHR ''-'') text))))"

text \<open>The inner loop over the prefixes: the first prefix the lower-cased entry starts with
  is cut off, and the loop stops there.\<close>

fun stripPrefix :: "string list \<Rightarrow> string \<Rightarrow> string" where
  "stripPrefix [] entry = entry"
| "stripPrefix (p # ps) entry =
     (if startsWith (toLowerCase entry) p then drop (length p) entry
      else stripPrefix ps entry)"

text \<open>\<open>entry.match(/^<[@#][!]?(\d+)>$/)\<close>, returning the captured digits.\<close>

definition mentionMatch :: "string \<Rightarrow> string option" where
  "mentionMatch entry =
     (case entry of
        c1 # c2 # rest \<Rightarrow>
          if c1 = CHR ''<'' \<and> (c2 = CHR ''@'' \<or> c2 = CHR ''#'') \<and> rest \<noteq> []
               \<and> last rest = CHR ''>''
          then let inner = butlast rest;
                   digits = (case inner of
                               [] \<Rightarrow> []
                             | b # bs \<Rightarrow> if b = CHR ''!'' then bs else inner)
               in if digits \<noteq> [] \<and> list_all isDigit digits then Some digits else None
          else None
      | _ \<Rightarrow> None)"

text \<open>One iteration of the loop over the raw entries of \<open>normalizeDiscordAllowList\<close>.\<close>

definition addRawEntry :: "string list \<Rightarrow> DiscordAllowList \<Rightarrow> raw_entry \<Rightarrow> DiscordAllowList" where
  "addRawEntry pfxs acc rawEntry =
     (let entry = trim (String rawEntry)
      in if entry = [] then acc
         else if entry = ''*'' then acc\<lparr>allowAll := True\<rparr>
         else
           let entry = stripPrefix pfxs entry
           in case mentionMatch entry of
                Some d \<Rightarrow> acc\<lparr>ids := insert d (ids acc)\<rparr>
              | None \<Rightarrow>
                  let entry = trim entry;
                      entry = (if startsWith entry ''@'' \<or> startsWith entry ''#''
                               then drop 1 entry else entry)
                  in if entry \<noteq> [] \<and> list_all isDigit entry
                     then acc\<lparr>ids := insert entry (ids acc)\<rparr>
                     else
                       let normalized = normalizeDiscordName (Some entry);
                           acc = (if normalized \<noteq> []
                                  then acc\<lparr>names := insert normalized (names acc)\<rparr> else acc);
                           slugged = normalizeDiscordSlug (Some entry)
                       in if slugged \<noteq> []
                          then acc\<lparr>names := insert slugged (names acc)\<rparr> else acc)"

definition normalizeDiscordAllowList ::
    "raw_entry list option \<Rightarrow> string list \<Rightarrow> DiscordAllowList option" where
  "normalizeDiscordAllowList raw pfxs =
     (case raw of
        None \<Rightarrow> None
      | Some entries \<Rightarrow>
          if entries = [] then None
          else
            let r = foldl (addRawEntry pfxs)
                      \<lparr>allowAll = False, ids = {}, names = {}\<rparr> entries
            in if \<not> allowAll r \<and> ids r = {} \<and> names r = {} then None else Some r)"

record candidate =
  cand_id :: "string option"
  cand_name :: "string option"
  cand_tag :: "string option"

definition allowListMatches :: "DiscordAllowList \<Rightarrow> candidate \<Rightarrow> bool" where
  "allowListMatches allowList candidates =
     (if allowAll allowList then True
      else if (case cand_id candidates of None \<Rightarrow> False
               | Some i \<Rightarrow> i \<noteq> [] \<and> i \<in> ids allowList) then True
      else
        let normalizedName = normalizeDiscordName (cand_name candidates);
            normalizedTag = normalizeDiscordName (cand_tag candidates);
            slugName = normalizeDiscordSlug (cand_name candidates);
            slugTag = normalizeDiscordSlug (cand_tag candidates)
        in if normalizedName \<noteq> [] \<and> normalizedName \<in> names allowList then True
           else if normalizedTag \<noteq> [] \<and> normalizedTag \<in> names allowList then True
           else if slugName \<noteq> [] \<and> slugName \<in> names allowList then True
           else if slugTag \<noteq> [] \<and> slugTag \<in> names allowList then True
           else False)"

section \<open>Outbound delivery\<close>

datatype ReplyToMode = ModeOff | ModeFirst | ModeAll

record ReplyPayload =
  pl_text :: "string option"
  pl_mediaUrl :: "string option"
  pl_mediaUrls :: "string list option"
  pl_replyToId :: "string option"

definition resolveDiscordReplyTarget :: "ReplyToMode \<Rightarrow> string option \<Rightarrow> bool \<Rightarrow> string option" where
  "resolveDiscordReplyTarget replyToMode replyToId hasReplied =
     (if replyToMode = ModeOff then None
      else case map_option trim replyToId of
             None \<Rightarrow> None
           | Some rid \<Rightarrow>
               if rid = [] then None
               else if replyToMode = ModeAll then Some rid
               else if hasReplied then None else Some rid)"

text \<open>One call of \<open>sendMessageDiscord(target, text, {token, mediaUrl, replyTo})\<close>.\<close>

record Outbound =
  ob_target :: string
  ob_text :: string
  ob_mediaUrl :: "string option"
  ob_replyTo :: "string option"

text \<open>
  \<open>sendMessageDiscord\<close> and \<open>chunkText\<close> are imported from other modules; they are
  parameters of the model. \<open>sendOk n\<close> says whether the call of \<open>sendMessageDiscord\<close>
  that is made when \<open>n\<close> calls have been made before it (in the same handler run)
  resolves; otherwise it rejects. The log \<open>calls\<close> holds every call in order, a rejected
  one included. A delivery state is the local flag \<open>hasReplied\<close> and the log; \<open>Inl\<close>
  carries the log when a send has thrown.
\<close>

type_synonym DeliveryState = "bool \<times> Outbound list"

definition sendOne ::
    "(nat \<Rightarrow> bool) \<Rightarrow> ReplyToMode \<Rightarrow> string \<Rightarrow> string option \<Rightarrow> string \<Rightarrow> string option
      \<Rightarrow> DeliveryState \<Rightarrow> Outbound list + DeliveryState" where
  "sendOne sendOk replyToMode target replyToId body mediaUrl st =
     (let hasReplied = fst st; calls = snd st;
          replyTo = resolveDiscordReplyTarget replyToMode replyToId hasReplied;
          call = \<lparr>ob_target = target, ob_text = body, ob_mediaUrl = mediaUrl,
                    ob_replyTo = replyTo\<rparr>
      in if sendOk (length calls)
         then Inr (if (case replyTo of None \<Rightarrow> False | Some r \<Rightarrow> r \<noteq> []) \<and> \<not> hasReplied
                   then True else hasReplied, calls @ [call])
         else Inl (calls @ [call]))"

text \<open>The loop over the chunks of a text-only payload.\<close>

fun sendChunks ::
    "(nat \<Rightarrow> bool) \<Rightarrow> ReplyToMode \<Rightarrow> string \<Rightarrow> string option \<Rightarrow> string list
      \<Rightarrow> DeliveryState \<Rightarrow> Outbound list + DeliveryState" where
  "sendChunks sendOk replyToMode target replyToId [] st = Inr st"
| "sendChunks sendOk replyToMode target replyToId (chunk # chunks) st =
     (case sendOne sendOk replyToMode target replyToId chunk None st of
        Inl log \<Rightarrow> Inl log
      | Inr st' \<Rightarrow> sendChunks sendOk replyToMode target replyToId chunks st')"

text \<open>The loop over the media of a payload, with its local flag \<open>first\<close>.\<close>

fun sendMedia ::
    "(nat \<Rightarrow> bool) \<Rightarrow> ReplyToMode \<Rightarrow> string \<Rightarrow> string option \<Rightarrow> string \<Rightarrow> bool
      \<Rightarrow> string list \<Rightarrow> DeliveryState \<Rightarrow> Outbound list + DeliveryState" where
  "sendMedia sendOk replyToMode target replyToId body first [] st = Inr st"
| "sendMedia sendOk replyToMode target replyToId body first (mediaUrl # rest) st =
     (let caption = (if first then body else [])
      in case sendOne sendOk replyToMode target replyToId caption (Some mediaUrl) st of
           Inl log \<Rightarrow> Inl log
         | Inr st' \<Rightarrow> sendMedia sendOk replyToMode target replyToId body False rest st')"

definition mediaListOf :: "ReplyPayload \<Rightarrow> string list" where
  "mediaListOf payload =
     (case pl_mediaUrls payload of
        Some urls \<Rightarrow> urls
      | None \<Rightarrow> (case pl_mediaUrl payload of
                   None \<Rightarrow> []
                 | Some u \<Rightarrow> if u \<noteq> [] then [u] else []))"

definition textOf :: "ReplyPayload \<Rightarrow> string" where
  "textOf payload = (case pl_text payload of None \<Rightarrow> [] | Some t \<Rightarrow> t)"

text \<open>The loop over the payloads.\<close>

fun deliverLoop ::
    "(string \<Rightarrow> nat \<Rightarrow> string list) \<Rightarrow> (nat \<Rightarrow> bool) \<Rightarrow> ReplyToMode \<Rightarrow> string \<Rightarrow> nat
      \<Rightarrow> ReplyPayload list \<Rightarrow> DeliveryState \<Rightarrow> Outbound list + DeliveryState" where
  "deliverLoop chunkText sendOk replyToMode target chunkLimit [] st = Inr st"
| "deliverLoop chunkText sendOk replyToMode target chunkLimit (payload # rest) st =
     (let mediaList = mediaListOf payload;
          body = textOf payload;
          replyToId = pl_replyToId payload
      in if body = [] \<and> mediaList = []
         then deliverLoop chunkText sendOk replyToMode target chunkLimit rest st
         else
           case (if mediaList = []
                 then sendChunks sendOk replyToMode target replyToId
                        (chunkText body chunkLimit) st
                 else sendMedia sendOk replyToMode target replyToId body True mediaList st) of
             Inl log \<Rightarrow> Inl log
           | Inr st' \<Rightarrow> deliverLoop chunkText sendOk replyToMode target chunkLimit rest st')"

text \<open>\<open>deliverReplies\<close>, started when the log is \<open>calls\<close>: the log afterwards, and whether
  the call returned (\<open>True\<close>) or threw (\<open>False\<close>).\<close>

definition deliverReplies ::
    "(string \<Rightarrow> nat \<Rightarrow> string list) \<Rightarrow> (nat \<Rightarrow> bool) \<Rightarrow> ReplyPayload list \<Rightarrow> string
      \<Rightarrow> ReplyToMode \<Rightarrow> nat \<Rightarrow> Outbound list \<Rightarrow> Outbound list \<times> bool" where
  "deliverReplies chunkText sendOk replies target replyToMode textLimit calls =
     (let hasReplied = False;
          chunkLimit = min textLimit 2000
      in case deliverLoop chunkText sendOk replyToMode target chunkLimit replies
                (hasReplied, calls) of
           Inl log \<Rightarrow> (log, False)
         | Inr st \<Rightarrow> (snd st, True))"

section \<open>Configuration\<close>

datatype ReactionMode = ReactOff | ReactOwn | ReactAll | ReactAllowlist

record ChannelEntry =
  ce_allow :: "bool option"
  ce_requireMention :: "bool option"

text \<open>\<open>DiscordGuildEntryResolved\<close>. A \<open>Record<string, \<dots>>\<close> of the configuration is a
  plain object; it is represented by the list of its own properties, in the order in which
  \<open>Object.entries\<close> lists them.\<close>

record GuildEntry =
  ge_id :: "string option"
  ge_slug :: "string option"
  ge_requireMention :: "bool option"
  ge_reactionNotifications :: "ReactionMode option"
  ge_users :: "raw_entry list option"
  ge_channels :: "(string \<times> ChannelEntry) list option"

record DmConfig =
  dm_enabled :: "bool option"
  dm_groupEnabled :: "bool option"
  dm_allowFrom :: "raw_entry list option"
  dm_groupChannels :: "raw_entry list option"

text \<open>The part \<open>cfg.discord\<close> of the loaded configuration that the monitor reads.\<close>

record DiscordConfig =
  dc_dm :: "DmConfig option"
  dc_guilds :: "(string \<times> GuildEntry) list option"
  dc_mediaMaxMb :: "nat option"
  dc_historyLimit :: "int option"
  dc_replyToMode :: "ReplyToMode option"

record MonitorDiscordOpts =
  o_mediaMaxMb :: "nat option"
  o_historyLimit :: "int option"
  o_replyToMode :: "ReplyToMode option"

text \<open>The constants that \<open>monitorDiscordProvider\<close> computes once, before it registers its
  handlers. \<open>textLimit\<close> is the result of the imported \<open>resolveTextChunkLimit\<close>.\<close>

record Settings =
  allowFrom :: "raw_entry list option"
  guildEntries :: "(string \<times> GuildEntry) list option"
  mediaMaxBytes :: nat
  textLimit :: nat
  historyLimit :: nat
  replyToMode :: ReplyToMode
  dmEnabled :: bool
  groupDmEnabled :: bool
  groupDmChannels :: "raw_entry list option"

definition orDefault :: "'a option \<Rightarrow> 'a \<Rightarrow> 'a" where
  "orDefault v d = (case v of None \<Rightarrow> d | Some x \<Rightarrow> x)"

definition orElse :: "'a option \<Rightarrow> 'a option \<Rightarrow> 'a option" where
  "orElse v w = (case v of None \<Rightarrow> w | Some x \<Rightarrow> Some x)"

definition resolveSettings :: "MonitorDiscordOpts \<Rightarrow> DiscordConfig option \<Rightarrow> nat \<Rightarrow> Settings" where
  "resolveSettings opts discord chunkLimit =
     (let dmConfig = Option.bind discord dc_dm
      in \<lparr>allowFrom = Option.bind dmConfig dm_allowFrom,
          guildEntries = Option.bind discord dc_guilds,
          mediaMaxBytes =
            orDefault (orElse (o_mediaMaxMb opts) (Option.bind discord dc_mediaMaxMb)) 8
              * 1024 * 1024,
          textLimit = chunkLimit,
          historyLimit =
            nat (max 0 (orDefault
                          (orElse (o_historyLimit opts) (Option.bind discord dc_historyLimit))
                          20)),
          replyToMode =
            orDefault (orElse (o_replyToMode opts) (Option.bind discord dc_replyToMode)) ModeOff,
          dmEnabled = orDefault (Option.bind dmConfig dm_enabled) True,
          groupDmEnabled = orDefault (Option.bind dmConfig dm_groupEnabled) False,
          groupDmChannels = Option.bind dmConfig dm_groupChannels\<rparr>)"

section \<open>Guild and channel policy\<close>

text \<open>
  Property access \<open>obj[key]\<close> on a plain object finds the object's own property of that
  name and, when there is none, the member of \<open>Object.prototype\<close> of that name. These are
  the names of the members of \<open>Object.prototype\<close>. Each of them is a function, or for
  \<open>__proto__\<close> the prototype object itself: a truthy value that is not \<open>null\<close> or
  \<open>undefined\<close> and on which none of the properties that the code reads from an entry
  (\<open>slug\<close>, \<open>requireMention\<close>, \<open>reactionNotifications\<close>, \<open>users\<close>, \<open>channels\<close>,
  \<open>allow\<close>) is defined.
\<close>

definition objectPrototypeNames :: "string list" where
  "objectPrototypeNames =
     [''constructor'', ''__defineGetter__'', ''__defineSetter__'', ''hasOwnProperty'',
      ''__lookupGetter__'', ''__lookupSetter__'', ''isPrototypeOf'', ''propertyIsEnumerable'',
      ''toString'', ''valueOf'', ''__proto__'', ''toLocaleString'']"

text \<open>\<open>obj[key]\<close>, where \<open>inherited\<close> is what the code sees when it reads a member of
  \<open>Object.prototype\<close> as an entry; \<open>None\<close> is \<open>undefined\<close>.\<close>

definition getProperty :: "'a \<Rightarrow> (string \<times> 'a) list \<Rightarrow> string \<Rightarrow> 'a option" where
  "getProperty inherited obj key =
     (case map_of obj key of
        Some v \<Rightarrow> Some v
      | None \<Rightarrow> if key \<in> set objectPrototypeNames then Some inherited else None)"

definition inheritedGuildEntry :: GuildEntry where
  "inheritedGuildEntry =
     \<lparr>ge_id = None, ge_slug = None, ge_requireMention = None,
      ge_reactionNotifications = None, ge_users = None, ge_channels = None\<rparr>"

definition inheritedChannelEntry :: ChannelEntry where
  "inheritedChannelEntry = \<lparr>ce_allow = None, ce_requireMention = None\<rparr>"

record Guild =
  g_id :: string
  g_name :: string

definition resolvedEntry :: "string \<Rightarrow> string \<Rightarrow> GuildEntry \<Rightarrow> GuildEntry" where
  "resolvedEntry guildId guildSlug entry =
     \<lparr>ge_id = Some guildId,
      ge_slug = Some (orDefault (ge_slug entry) guildSlug),
      ge_requireMention = ge_requireMention entry,
      ge_reactionNotifications = ge_reactionNotifications entry,
      ge_users = ge_users entry,
      ge_channels = ge_channels entry\<rparr>"

definition resolveDiscordGuildEntry ::
    "Guild option \<Rightarrow> (string \<times> GuildEntry) list option \<Rightarrow> GuildEntry option" where
  "resolveDiscordGuildEntry guild entries =
     (case guild of
        None \<Rightarrow> None
      | Some g \<Rightarrow>
          (case entries of
             None \<Rightarrow> None
           | Some es \<Rightarrow>
               if es = [] then None
               else
                 let guildId = g_id g;
                     guildSlug = normalizeDiscordSlug (Some (g_name g))
                 in case getProperty inheritedGuildEntry es guildId of
                      Some direct \<Rightarrow> Some (resolvedEntry guildId guildSlug direct)
                    | None \<Rightarrow>
                        (case (if guildSlug \<noteq> []
                               then getProperty inheritedGuildEntry es guildSlug else None) of
                           Some entry \<Rightarrow> Some (resolvedEntry guildId guildSlug entry)
                         | None \<Rightarrow>
                             (case find (\<lambda>ke. let entrySlug = normalizeDiscordSlug (ge_slug (snd ke))
                                               in entrySlug \<noteq> [] \<and> entrySlug = guildSlug) es of
                                Some matchBySlug \<Rightarrow>
                                  Some (resolvedEntry guildId guildSlug (snd matchBySlug))
                              | None \<Rightarrow>
                                  (case getProperty inheritedGuildEntry es ''*'' of
                                     Some wildcard \<Rightarrow>
                                       Some (resolvedEntry guildId guildSlug wildcard)
                                   | None \<Rightarrow> None)))))"

record DiscordChannelConfigResolved =
  cc_allowed :: bool
  cc_requireMention :: "bool option"

definition resolveDiscordChannelConfig ::
    "GuildEntry option \<Rightarrow> string \<Rightarrow> string option \<Rightarrow> string \<Rightarrow> DiscordChannelConfigResolved" where
  "resolveDiscordChannelConfig guildInfo chanId chanName chanSlug =
     (case Option.bind guildInfo ge_channels of
        None \<Rightarrow> \<lparr>cc_allowed = True, cc_requireMention = None\<rparr>
      | Some channelEntries \<Rightarrow>
          if channelEntries = [] then \<lparr>cc_allowed = True, cc_requireMention = None\<rparr>
          else
            case orElse (getProperty inheritedChannelEntry channelEntries chanId)
                   (orElse
                      (if chanSlug \<noteq> []
                       then orElse (getProperty inheritedChannelEntry channelEntries chanSlug)
                              (getProperty inheritedChannelEntry channelEntries
                                 (CHR ''#'' # chanSlug))
                       else None)
                      (case chanName of
                         None \<Rightarrow> None
                       | Some n \<Rightarrow>
                           if n \<noteq> []
                           then getProperty inheritedChannelEntry channelEntries
                                  (normalizeDiscordSlug (Some n))
                           else None)) of
              None \<Rightarrow> \<lparr>cc_allowed = False, cc_requireMention = None\<rparr>
            | Some entry \<Rightarrow>
                \<lparr>cc_allowed = (ce_allow entry \<noteq> Some False),
                 cc_requireMention = ce_requireMention entry\<rparr>)"

definition resolveGroupDmAllow ::
    "raw_entry list option \<Rightarrow> string \<Rightarrow> string option \<Rightarrow> string \<Rightarrow> bool" where
  "resolveGroupDmAllow channels chanId chanName chanSlug =
     (case channels of
        None \<Rightarrow> True
      | Some cs \<Rightarrow>
          if cs = [] then True
          else case normalizeDiscordAllowList channels [''channel:''] of
                 None \<Rightarrow> True
               | Some allowList \<Rightarrow>
                   allowListMatches allowList
                     \<lparr>cand_id = Some chanId,
                      cand_name = (if chanSlug \<noteq> [] then Some chanSlug else chanName),
                      cand_tag = None\<rparr>)"

section \<open>Inbound messages\<close>

datatype ChannelType = DM | GroupDM | OtherChannel

datatype MessageType =
    Default | Reply | ChatInputCommand | ContextMenuCommand
  | ChannelPinnedMessage | RecipientAdd | RecipientRemove | UserJoin
  | GuildBoost | GuildBoostTier1 | GuildBoostTier2 | GuildBoostTier3
  | ThreadCreated | AutoModerationAction
  | GuildIncidentAlertModeEnabled | GuildIncidentAlertModeDisabled
  | GuildIncidentReportRaid | GuildIncidentReportFalseAlarm
  | StageStart | StageEnd | StageSpeaker | StageTopic
  | PollResult | PurchaseNotification | OtherType

text \<open>The property \<open>name\<close> of \<open>message.channel\<close>: absent, \<open>null\<close>, or a string.\<close>

datatype ChannelName = NoName | NullName | Named string

record Author =
  a_id :: string
  a_bot :: bool
  a_username :: string
  a_tag :: string

record Attachment =
  att_url :: string
  att_contentType :: "string option"
  att_name :: "string option"

record Embed =
  emb_description :: "string option"

record MessageSnapshot =
  snap_content :: "string option"
  snap_embeds :: "Embed list"
  snap_type :: "number option"
  snap_createdTimestamp :: "int option"

record Reference =
  ref_messageId :: "string option"
  ref_channelId :: "string option"
  ref_guildId :: "string option"

record Message =
  author :: "Author option"
  memberDisplayName :: "string option"
  channelType :: ChannelType
  channelName :: ChannelName
  guild :: "Guild option"
  msgType :: MessageType
  msgId :: string
  channelId :: string
  content :: "string option"
  attachments :: "Attachment list"
  embeds :: "Embed list"
  mentions :: "string list"
  createdTimestamp :: int
  messageSnapshots :: "MessageSnapshot list"
  reference :: "Reference option"

record DiscordMediaInfo =
  media_path :: string
  media_contentType :: "string option"
  media_placeholder :: string

record DiscordHistoryEntry =
  he_sender :: string
  he_body :: string
  he_timestamp :: "int option"
  he_messageId :: "string option"

text \<open>\<open>a || b\<close> on strings.\<close>

definition strOr :: "string \<Rightarrow> string \<Rightarrow> string" where
  "strOr a b = (if a \<noteq> [] then a else b)"

definition firstDescription :: "Embed list \<Rightarrow> string option" where
  "firstDescription es = (case es of [] \<Rightarrow> None | e # _ \<Rightarrow> emb_description e)"

definition inferPlaceholder :: "Attachment \<Rightarrow> string" where
  "inferPlaceholder attachment =
     (let mime = orDefault (att_contentType attachment) []
      in if startsWith mime ''image/'' then ''<media:image>''
         else if startsWith mime ''video/'' then ''<media:video>''
         else if startsWith mime ''audio/'' then ''<media:audio>''
         else ''<media:document>'')"

definition resolveDiscordMessageText :: "Message \<Rightarrow> string option \<Rightarrow> string" where
  "resolveDiscordMessageText message fallbackText =
     strOr (orDefault (map_option trim (content message)) [])
       (strOr (case attachments message of [] \<Rightarrow> [] | attachment # _ \<Rightarrow> inferPlaceholder attachment)
          (strOr (orDefault (firstDescription (embeds message)) [])
             (strOr (orDefault (map_option trim fallbackText) []) [])))"

definition resolveDiscordSnapshotText :: "MessageSnapshot \<Rightarrow> string" where
  "resolveDiscordSnapshotText snapshot =
     strOr (orDefault (map_option trim (snap_content snapshot)) [])
       (strOr (orDefault (firstDescription (snap_embeds snapshot)) []) [])"

record ForwardedSnapshot =
  fs_snapshot :: MessageSnapshot
  fs_messageId :: "string option"
  fs_channelId :: "string option"
  fs_guildId :: "string option"

definition resolveForwardedSnapshot :: "Message \<Rightarrow> ForwardedSnapshot option" where
  "resolveForwardedSnapshot message =
     (case messageSnapshots message of
        [] \<Rightarrow> None
      | snapshot # _ \<Rightarrow>
          Some \<lparr>fs_snapshot = snapshot,
                fs_messageId = Option.bind (reference message) ref_messageId,
                fs_channelId = Option.bind (reference message) ref_channelId,
                fs_guildId = Option.bind (reference message) ref_guildId\<rparr>)"

definition showChannelName :: "ChannelName \<Rightarrow> string \<Rightarrow> string" where
  "showChannelName n chanId =
     (case n of NoName \<Rightarrow> chanId | NullName \<Rightarrow> ''null'' | Named s \<Rightarrow> s)"

definition buildDirectLabel :: "Author \<Rightarrow> string" where
  "buildDirectLabel a = a_tag a @ '' user id:'' @ a_id a"

definition buildGuildLabel :: "Message \<Rightarrow> string" where
  "buildGuildLabel message =
     (case guild message of None \<Rightarrow> ''Guild'' | Some g \<Rightarrow> g_name g)
       @ '' #'' @ showChannelName (channelName message) (channelId message)
       @ '' channel id:'' @ channelId message"

definition buildDiscordSystemEvent :: "Message \<Rightarrow> string \<Rightarrow> string" where
  "buildDiscordSystemEvent message action =
     (let shown = showChannelName (channelName message) (channelId message);
          location =
            (case guild message of
               Some g \<Rightarrow>
                 if g_name g \<noteq> [] then g_name g @ '' #'' @ shown
                 else if channelType message = GroupDM then ''Group DM #'' @ shown else ''DM''
             | None \<Rightarrow>
                 if channelType message = GroupDM then ''Group DM #'' @ shown else ''DM'');
          authorLabel = (case author message of None \<Rightarrow> [] | Some a \<Rightarrow> a_tag a);
          actor = (if authorLabel \<noteq> [] then authorLabel @ '' '' else [])
      in ''Discord system: '' @ actor @ action @ '' in '' @ location)"

definition systemAction :: "MessageType \<Rightarrow> string option" where
  "systemAction t =
     (case t of
        ChannelPinnedMessage \<Rightarrow> Some ''pinned a message''
      | RecipientAdd \<Rightarrow> Some ''added a recipient''
      | RecipientRemove \<Rightarrow> Some ''removed a recipient''
      | UserJoin \<Rightarrow> Some ''user joined''
      | GuildBoost \<Rightarrow> Some ''boosted the server''
      | GuildBoostTier1 \<Rightarrow> Some ''boosted the server (Tier 1 reached)''
      | GuildBoostTier2 \<Rightarrow> Some ''boosted the server (Tier 2 reached)''
      | GuildBoostTier3 \<Rightarrow> Some ''boosted the server (Tier 3 reached)''
      | ThreadCreated \<Rightarrow> Some ''created a thread''
      | AutoModerationAction \<Rightarrow> Some ''auto moderation action''
      | GuildIncidentAlertModeEnabled \<Rightarrow> Some ''raid protection enabled''
      | GuildIncidentAlertModeDisabled \<Rightarrow> Some ''raid protection disabled''
      | GuildIncidentReportRaid \<Rightarrow> Some ''raid reported''
      | GuildIncidentReportFalseAlarm \<Rightarrow> Some ''raid report marked false alarm''
      | StageStart \<Rightarrow> Some ''stage started''
      | StageEnd \<Rightarrow> Some ''stage ended''
      | StageSpeaker \<Rightarrow> Some ''stage speaker updated''
      | StageTopic \<Rightarrow> Some ''stage topic updated''
      | PollResult \<Rightarrow> Some ''poll results posted''
      | PurchaseNotification \<Rightarrow> Some ''purchase notification''
      | _ \<Rightarrow> None)"

definition resolveDiscordSystemEvent :: "Message \<Rightarrow> string option" where
  "resolveDiscordSystemEvent message =
     map_option (buildDiscordSystemEvent message) (systemAction (msgType message))"

section \<open>The environment of a handler run\<close>

record HttpResponse =
  res_status :: nat
  res_contentType :: "string option"
  res_body :: string

definition res_ok :: "HttpResponse \<Rightarrow> bool" where
  "res_ok res \<longleftrightarrow> 200 \<le> res_status res \<and> res_status res \<le> 299"

record SavedMedia =
  saved_path :: string
  saved_contentType :: "string option"

record Envelope =
  env_surface :: string
  env_from :: string
  env_timestamp :: "int option"
  env_body :: string

text \<open>The context handed to the reply generator (\<open>ctxPayload\<close>).\<close>

record MsgContext =
  ctx_Body :: string
  ctx_From :: string
  ctx_To :: string
  ctx_ChatType :: string
  ctx_SenderName :: string
  ctx_SenderUsername :: string
  ctx_SenderTag :: string
  ctx_GroupSubject :: "string option"
  ctx_GroupRoom :: "string option"
  ctx_GroupSpace :: "string option"
  ctx_Surface :: string
  ctx_WasMentioned :: bool
  ctx_MessageSid :: string
  ctx_Timestamp :: int
  ctx_MediaPath :: "string option"
  ctx_MediaType :: "string option"
  ctx_MediaUrl :: "string option"

text \<open>What \<open>getReplyFromConfig\<close> returns: nothing, one payload, or an array.\<close>

datatype ReplyResult = NoReply | Single ReplyPayload | Many "ReplyPayload list"

text \<open>A run of \<open>getReplyFromConfig\<close>: the payloads it hands to \<open>onBlockReply\<close>, in order,
  and then either its result or an exception.\<close>

datatype Generation = Returned "ReplyPayload list" ReplyResult | Thrown "ReplyPayload list"

text \<open>
  Everything the handler calls but this module does not define: the bot's own id
  (\<open>client.user?.id\<close>), \<open>fetch\<close> (\<open>Inl\<close> is a rejected promise), \<open>detectMime\<close>,
  \<open>saveMediaBuffer\<close> (\<open>Inl\<close> is a thrown error, as for a buffer over the size cap),
  \<open>message.fetchReference()\<close>, \<open>formatAgentEnvelope\<close>, \<open>getReplyFromConfig\<close>, \<open>chunkText\<close>,
  \<open>sendMessageDiscord\<close> and \<open>updateLastRoute\<close>. Logging and the typing indicator are left out.
\<close>

record World =
  w_botId :: "string option"
  w_fetch :: "string \<Rightarrow> string + HttpResponse"
  w_detectMime :: "string \<Rightarrow> string option \<Rightarrow> string \<Rightarrow> string option"
  w_saveMediaBuffer :: "string \<Rightarrow> string option \<Rightarrow> nat \<Rightarrow> string + SavedMedia"
  w_fetchReference :: "Message \<Rightarrow> string + Message option"
  w_formatAgentEnvelope :: "Envelope \<Rightarrow> string"
  w_getReplyFromConfig :: "MsgContext \<Rightarrow> Generation"
  w_chunkText :: "string \<Rightarrow> nat \<Rightarrow> string list"
  w_sendOk :: "nat \<Rightarrow> bool"
  w_updateLastRouteOk :: bool

datatype HandlerError =
    FetchRejected string
  | DownloadFailed nat
  | SaveMediaFailed string
  | UpdateLastRouteFailed
  | GenerationFailed
  | DeliveryFailed

definition resolveMedia :: "World \<Rightarrow> Message \<Rightarrow> nat \<Rightarrow> HandlerError + DiscordMediaInfo option" where
  "resolveMedia w message maxBytes =
     (case attachments message of
        [] \<Rightarrow> Inr None
      | attachment # _ \<Rightarrow>
          (case w_fetch w (att_url attachment) of
             Inl e \<Rightarrow> Inl (FetchRejected e)
           | Inr res \<Rightarrow>
               if \<not> res_ok res then Inl (DownloadFailed (res_status res))
               else
                 let buffer = res_body res;
                     mime = w_detectMime w buffer
                              (orElse (att_contentType attachment) (res_contentType res))
                              (orDefault (att_name attachment) (att_url attachment))
                 in case w_saveMediaBuffer w buffer mime maxBytes of
                      Inl e \<Rightarrow> Inl (SaveMediaFailed e)
                    | Inr saved \<Rightarrow>
                        Inr (Some \<lparr>media_path = saved_path saved,
                                   media_contentType = saved_contentType saved,
                                   media_placeholder = inferPlaceholder attachment\<rparr>)))"

definition nl :: string where
  "nl = [CHR 0x0A]"

definition resolveReplyContext :: "World \<Rightarrow> Message \<Rightarrow> string option" where
  "resolveReplyContext w message =
     (if orDefault (Option.bind (reference message) ref_messageId) [] = [] then None
      else
        case w_fetchReference w message of
          Inl err \<Rightarrow> None
        | Inr None \<Rightarrow> None
        | Inr (Some referenced) \<Rightarrow>
            (case author referenced of
               None \<Rightarrow> None
             | Some ra \<Rightarrow>
                 let referencedText = resolveDiscordMessageText referenced None
                 in if referencedText = [] then None
                    else
                      let fromLabel =
                            (if channelType referenced = DM then buildDirectLabel ra
                             else orDefault (memberDisplayName referenced) (a_tag ra));
                          body = referencedText @ nl @ ''[discord message id: '' @ msgId referenced
                                   @ '' channel: '' @ channelId referenced
                                   @ '' from: '' @ a_tag ra @ '' user id:'' @ a_id ra @ '']''
                      in Some (w_formatAgentEnvelope w
                                 \<lparr>env_surface = ''Discord'', env_from = fromLabel,
                                  env_timestamp = Some (createdTimestamp referenced),
                                  env_body = body\<rparr>)))"

section \<open>The \<open>MessageCreate\<close> handler\<close>

subsection \<open>Local constants of the handler\<close>

definition isGroupDm :: "Message \<Rightarrow> bool" where
  "isGroupDm message \<longleftrightarrow> channelType message = GroupDM"

definition isDirectMessage :: "Message \<Rightarrow> bool" where
  "isDirectMessage message \<longleftrightarrow> channelType message = DM"

definition isGuildMessage :: "Message \<Rightarrow> bool" where
  "isGuildMessage message \<longleftrightarrow> guild message \<noteq> None"

definition botIdKnown :: "World \<Rightarrow> bool" where
  "botIdKnown w \<longleftrightarrow> (case w_botId w of None \<Rightarrow> False | Some b \<Rightarrow> b \<noteq> [])"

definition wasMentioned :: "World \<Rightarrow> Message \<Rightarrow> bool" where
  "wasMentioned w message \<longleftrightarrow>
     \<not> isDirectMessage message
     \<and> (case w_botId w of None \<Rightarrow> False | Some b \<Rightarrow> b \<noteq> [] \<and> b \<in> set (mentions message))"

definition forwardedText :: "Message \<Rightarrow> string" where
  "forwardedText message =
     (case resolveForwardedSnapshot message of
        None \<Rightarrow> []
      | Some forwardedSnapshot \<Rightarrow> resolveDiscordSnapshotText (fs_snapshot forwardedSnapshot))"

definition baseText :: "Message \<Rightarrow> string" where
  "baseText message = resolveDiscordMessageText message (Some (forwardedText message))"

definition guildInfoOf :: "Settings \<Rightarrow> Message \<Rightarrow> GuildEntry option" where
  "guildInfoOf cfg message =
     (if isGuildMessage message
      then resolveDiscordGuildEntry (guild message) (guildEntries cfg) else None)"

definition channelNameOf :: "Message \<Rightarrow> string option" where
  "channelNameOf message =
     (if isGuildMessage message \<or> isGroupDm message
      then (case channelName message of Named n \<Rightarrow> Some n | _ \<Rightarrow> None)
      else None)"

definition channelSlugOf :: "Message \<Rightarrow> string" where
  "channelSlugOf message =
     (case channelNameOf message of
        None \<Rightarrow> []
      | Some n \<Rightarrow> if n \<noteq> [] then normalizeDiscordSlug (Some n) else [])"

definition guildSlugOf :: "Settings \<Rightarrow> Message \<Rightarrow> string" where
  "guildSlugOf cfg message =
     strOr (orDefault (Option.bind (guildInfoOf cfg message) ge_slug) [])
       (case guild message of
          None \<Rightarrow> []
        | Some g \<Rightarrow> if g_name g \<noteq> [] then normalizeDiscordSlug (Some (g_name g)) else [])"

definition channelConfigOf :: "Settings \<Rightarrow> Message \<Rightarrow> DiscordChannelConfigResolved option" where
  "channelConfigOf cfg message =
     (if isGuildMessage message
      then Some (resolveDiscordChannelConfig (guildInfoOf cfg message) (channelId message)
                   (channelNameOf message) (channelSlugOf message))
      else None)"

definition groupDmAllowed :: "Settings \<Rightarrow> Message \<Rightarrow> bool" where
  "groupDmAllowed cfg message \<longleftrightarrow>
     isGroupDm message
     \<and> resolveGroupDmAllow (groupDmChannels cfg) (channelId message)
         (channelNameOf message) (channelSlugOf message)"

definition resolvedRequireMention :: "Settings \<Rightarrow> Message \<Rightarrow> bool" where
  "resolvedRequireMention cfg message =
     orDefault
       (orElse (Option.bind (channelConfigOf cfg message) cc_requireMention)
          (Option.bind (guildInfoOf cfg message) ge_requireMention))
       True"

definition senderCandidate :: "Author \<Rightarrow> candidate" where
  "senderCandidate a =
     \<lparr>cand_id = Some (a_id a), cand_name = Some (a_username a), cand_tag = Some (a_tag a)\<rparr>"

subsection \<open>The gates before the history append\<close>

datatype DropReason =
    BotAuthor | NoAuthor | GroupDmDisabled | DmDisabled | ChannelCommand
  | GuildNotListed | GroupDmNotAllowed | ChannelNotAllowed
  | NoMention | GuildUserNotAllowed | SenderNotAllowed
  | EmptyContent | MissingReplyTarget

text \<open>Every \<open>return\<close> of the handler up to the history append, in the order of the source.\<close>

definition gateBeforeHistory :: "Settings \<Rightarrow> Message \<Rightarrow> DropReason option" where
  "gateBeforeHistory cfg message =
     (case author message of
        None \<Rightarrow> Some NoAuthor
      | Some a \<Rightarrow>
          if a_bot a then Some BotAuthor
          else if isGroupDm message \<and> \<not> groupDmEnabled cfg then Some GroupDmDisabled
          else if isDirectMessage message \<and> \<not> dmEnabled cfg then Some DmDisabled
          else if isGuildMessage message
                  \<and> (msgType message = ChatInputCommand \<or> msgType message = ContextMenuCommand)
          then Some ChannelCommand
          else if isGuildMessage message
                  \<and> (case guildEntries cfg of None \<Rightarrow> False | Some es \<Rightarrow> es \<noteq> [])
                  \<and> guildInfoOf cfg message = None
          then Some GuildNotListed
          else if isGroupDm message \<and> \<not> groupDmAllowed cfg message then Some GroupDmNotAllowed
          else if isGuildMessage message
                  \<and> (case channelConfigOf cfg message of
                        None \<Rightarrow> False
                      | Some channelConfig \<Rightarrow> \<not> cc_allowed channelConfig)
          then Some ChannelNotAllowed
          else None)"

subsection \<open>The history append\<close>

type_synonym Histories = "string \<rightharpoonup> DiscordHistoryEntry list"

definition historyOf :: "Histories \<Rightarrow> string \<Rightarrow> DiscordHistoryEntry list" where
  "historyOf guildHistories chanId =
     (case guildHistories chanId of None \<Rightarrow> [] | Some history \<Rightarrow> history)"

text \<open>\<open>while (history.length > historyLimit) history.shift()\<close>\<close>

function shiftWhileOver :: "nat \<Rightarrow> 'a list \<Rightarrow> 'a list" where
  "shiftWhileOver limit history =
     (if length history > limit then shiftWhileOver limit (tl history) else history)"
  by pat_completeness auto
termination
  by (relation "measure (\<lambda>(limit, history). length history)") auto

declare shiftWhileOver.simps [simp del]

definition historyEntryOf :: "Message \<Rightarrow> Author \<Rightarrow> DiscordHistoryEntry" where
  "historyEntryOf message a =
     \<lparr>he_sender = orDefault (memberDisplayName message) (a_tag a),
      he_body = baseText message,
      he_timestamp = Some (createdTimestamp message),
      he_messageId = Some (msgId message)\<rparr>"

definition appendHistory :: "Settings \<Rightarrow> Histories \<Rightarrow> Message \<Rightarrow> Author \<Rightarrow> Histories" where
  "appendHistory cfg guildHistories message a =
     (if isGuildMessage message \<and> historyLimit cfg > 0 \<and> baseText message \<noteq> []
      then
        let history = historyOf guildHistories (channelId message);
            history = history @ [historyEntryOf message a];
            history = shiftWhileOver (historyLimit cfg) history
        in guildHistories(channelId message \<mapsto> history)
      else guildHistories)"

subsection \<open>The gates after the history append\<close>

text \<open>The mention gate, the allow-list of the guild's users, and the allow-list
  \<open>allowFrom\<close> of direct messages.\<close>

definition mentionGateDrops :: "Settings \<Rightarrow> World \<Rightarrow> Message \<Rightarrow> bool" where
  "mentionGateDrops cfg w message \<longleftrightarrow>
     isGuildMessage message \<and> resolvedRequireMention cfg message
     \<and> botIdKnown w \<and> \<not> wasMentioned w message"

definition guildUserBlocked :: "Settings \<Rightarrow> Message \<Rightarrow> Author \<Rightarrow> bool" where
  "guildUserBlocked cfg message a \<longleftrightarrow>
     isGuildMessage message
     \<and> (case Option.bind (guildInfoOf cfg message) ge_users of
           None \<Rightarrow> False
         | Some userAllow \<Rightarrow>
             userAllow \<noteq> []
             \<and> \<not> (case normalizeDiscordAllowList (Some userAllow) [''discord:'', ''user:''] of
                     None \<Rightarrow> True
                   | Some users \<Rightarrow> allowListMatches users (senderCandidate a)))"

definition dmSenderBlocked :: "Settings \<Rightarrow> Message \<Rightarrow> Author \<Rightarrow> bool" where
  "dmSenderBlocked cfg message a \<longleftrightarrow>
     isDirectMessage message
     \<and> (case allowFrom cfg of
           None \<Rightarrow> False
         | Some allowed \<Rightarrow>
             allowed \<noteq> []
             \<and> \<not> (case normalizeDiscordAllowList (Some allowed) [''discord:'', ''user:''] of
                     None \<Rightarrow> False
                   | Some allowList \<Rightarrow> allowListMatches allowList (senderCandidate a)))"

definition gateAfterHistory :: "Settings \<Rightarrow> World \<Rightarrow> Message \<Rightarrow> Author \<Rightarrow> DropReason option" where
  "gateAfterHistory cfg w message a =
     (if mentionGateDrops cfg w message then Some NoMention
      else if guildUserBlocked cfg message a then Some GuildUserNotAllowed
      else if dmSenderBlocked cfg message a then Some SenderNotAllowed
      else None)"

subsection \<open>The turn: context, generation, delivery\<close>

datatype Outcome =
    Dropped DropReason
  | SystemEventQueued
  | HandlerFailed HandlerError
  | NoReplies
  | Delivered

text \<open>The state and the effects after one run of the handler: the history map, the calls
  of \<open>sendMessageDiscord\<close>, the context \<open>getReplyFromConfig\<close> was called with (if it was
  called), the system events enqueued (text and context key), the target of
  \<open>updateLastRoute\<close> (if it ran), and the exit taken.\<close>

record HandlerResult =
  hr_histories :: Histories
  hr_calls :: "Outbound list"
  hr_generated :: "MsgContext option"
  hr_systemEvents :: "(string \<times> string) list"
  hr_lastRoute :: "string option"
  hr_outcome :: Outcome

definition finish :: "Histories \<Rightarrow> Outcome \<Rightarrow> HandlerResult" where
  "finish guildHistories outcome =
     \<lparr>hr_histories = guildHistories, hr_calls = [], hr_generated = None,
      hr_systemEvents = [], hr_lastRoute = None, hr_outcome = outcome\<rparr>"

definition messageTextOf :: "Message \<Rightarrow> DiscordMediaInfo option \<Rightarrow> string" where
  "messageTextOf message media =
     (case map_option trim (content message) of
        Some t \<Rightarrow> t
      | None \<Rightarrow>
          (case media of
             Some info \<Rightarrow> media_placeholder info
           | None \<Rightarrow>
               (case firstDescription (embeds message) of
                  Some d \<Rightarrow> d
                | None \<Rightarrow>
                    if resolveForwardedSnapshot message \<noteq> None
                    then ''<forwarded message>'' else [])))"

definition historyWithoutCurrent :: "Settings \<Rightarrow> Histories \<Rightarrow> Message \<Rightarrow> DiscordHistoryEntry list" where
  "historyWithoutCurrent cfg guildHistories message =
     (let history = (if historyLimit cfg > 0
                     then historyOf guildHistories (channelId message) else [])
      in if length history > 0 then butlast history else [])"

definition renderHistoryEntry :: "World \<Rightarrow> string \<Rightarrow> Message \<Rightarrow> DiscordHistoryEntry \<Rightarrow> string" where
  "renderHistoryEntry w fromLabel message entry =
     w_formatAgentEnvelope w
       \<lparr>env_surface = ''Discord'', env_from = fromLabel,
        env_timestamp = he_timestamp entry,
        env_body = he_sender entry @ '': '' @ he_body entry
                   @ '' [id:'' @ orDefault (he_messageId entry) ''unknown''
                   @ '' channel:'' @ channelId message @ '']''\<rparr>"

text \<open>\<open>combinedBody\<close> after the block \<open>if (!isDirectMessage) { \<dots> }\<close>.\<close>

definition bodyWithHistory ::
    "Settings \<Rightarrow> World \<Rightarrow> Histories \<Rightarrow> Message \<Rightarrow> Author \<Rightarrow> string \<Rightarrow> string" where
  "bodyWithHistory cfg w guildHistories message a messageText =
     (let fromLabel = (if isDirectMessage message then buildDirectLabel a
                       else buildGuildLabel message);
          combinedBody = w_formatAgentEnvelope w
                           \<lparr>env_surface = ''Discord'', env_from = fromLabel,
                            env_timestamp = Some (createdTimestamp message),
                            env_body = messageText\<rparr>
      in if isDirectMessage message then combinedBody
         else
           let earlier = historyWithoutCurrent cfg guildHistories message;
               combinedBody =
                 (if length earlier > 0
                  then ''[Chat messages since your last reply - for context]'' @ nl
                         @ joinWith nl (map (renderHistoryEntry w fromLabel message) earlier)
                         @ nl @ nl @ ''[Current message - respond to this]'' @ nl
                         @ combinedBody
                  else combinedBody)
           in combinedBody @ nl @ ''[from: '' @ a_tag a @ '' user id:'' @ a_id a @ '']'')"

definition forwardedEnvelope :: "World \<Rightarrow> Message \<Rightarrow> Author \<Rightarrow> ForwardedSnapshot \<Rightarrow> string" where
  "forwardedEnvelope w message a forwardedSnapshot =
     (let forwarderName = a_tag a;
          forwarder = (if forwarderName \<noteq> [] then forwarderName @ '' id:'' @ a_id a
                       else a_id a);
          snapshotText = strOr (resolveDiscordSnapshotText (fs_snapshot forwardedSnapshot))
                           ''<forwarded message>'';
          forwardMetaParts =
            (case fs_messageId forwardedSnapshot of
               None \<Rightarrow> []
             | Some i \<Rightarrow> if i \<noteq> [] then [''forwarded message id: '' @ i] else [])
            @ (case fs_channelId forwardedSnapshot of
                 None \<Rightarrow> []
               | Some c \<Rightarrow> if c \<noteq> [] then [''channel: '' @ c] else [])
            @ (case fs_guildId forwardedSnapshot of
                 None \<Rightarrow> []
               | Some g \<Rightarrow> if g \<noteq> [] then [''guild: '' @ g] else [])
            @ (case snap_type (fs_snapshot forwardedSnapshot) of
                 None \<Rightarrow> []
               | Some t \<Rightarrow> [''snapshot type: '' @ numberToString t]);
          forwardedBody =
            (if forwardMetaParts \<noteq> []
             then snapshotText @ nl @ ''['' @ joinWith '' '' forwardMetaParts @ '']''
             else snapshotText)
      in w_formatAgentEnvelope w
           \<lparr>env_surface = ''Discord'', env_from = ''Forwarded by '' @ forwarder,
            env_timestamp =
              orElse (snap_createdTimestamp (fs_snapshot forwardedSnapshot))
                (Some (createdTimestamp message)),
            env_body = forwardedBody\<rparr>)"

text \<open>The final \<open>combinedBody\<close>: the reply context and the forwarded message are put
  in front.\<close>

definition combinedBodyOf ::
    "Settings \<Rightarrow> World \<Rightarrow> Histories \<Rightarrow> Message \<Rightarrow> Author \<Rightarrow> string \<Rightarrow> string" where
  "combinedBodyOf cfg w guildHistories message a messageText =
     (let combinedBody = bodyWithHistory cfg w guildHistories message a messageText;
          combinedBody =
            (case resolveReplyContext w message of
               None \<Rightarrow> combinedBody
             | Some replyContext \<Rightarrow>
                 if replyContext \<noteq> []
                 then ''[Replied message - for context]'' @ nl @ replyContext @ nl @ nl
                        @ combinedBody
                 else combinedBody)
      in case resolveForwardedSnapshot message of
           None \<Rightarrow> combinedBody
         | Some forwardedSnapshot \<Rightarrow>
             ''[Forwarded message]'' @ nl @ forwardedEnvelope w message a forwardedSnapshot
               @ nl @ nl @ combinedBody)"

definition ctxPayloadOf ::
    "Settings \<Rightarrow> World \<Rightarrow> Histories \<Rightarrow> Message \<Rightarrow> Author \<Rightarrow> DiscordMediaInfo option
      \<Rightarrow> string \<Rightarrow> MsgContext" where
  "ctxPayloadOf cfg w guildHistories message a media messageText =
     (let groupRoom = (if isGuildMessage message \<and> channelSlugOf message \<noteq> []
                       then Some (CHR ''#'' # channelSlugOf message) else None)
      in \<lparr>ctx_Body = combinedBodyOf cfg w guildHistories message a messageText,
          ctx_From = (if isDirectMessage message then ''discord:'' @ a_id a
                      else ''group:'' @ channelId message),
          ctx_To = (if isDirectMessage message then ''user:'' @ a_id a
                    else ''channel:'' @ channelId message),
          ctx_ChatType = (if isDirectMessage message then ''direct'' else ''group''),
          ctx_SenderName = orDefault (memberDisplayName message) (a_tag a),
          ctx_SenderUsername = a_username a,
          ctx_SenderTag = a_tag a,
          ctx_GroupSubject = (if isDirectMessage message then None else groupRoom),
          ctx_GroupRoom = groupRoom,
          ctx_GroupSpace =
            (if isGuildMessage message \<and> guildSlugOf cfg message \<noteq> []
             then Some (guildSlugOf cfg message) else None),
          ctx_Surface = ''discord'',
          ctx_WasMentioned = wasMentioned w message,
          ctx_MessageSid = msgId message,
          ctx_Timestamp = createdTimestamp message,
          ctx_MediaPath = map_option media_path media,
          ctx_MediaType = Option.bind media media_contentType,
          ctx_MediaUrl = map_option media_path media\<rparr>)"

text \<open>\<open>sendBlockReply\<close> over the payloads handed to \<open>onBlockReply\<close>: the sends are chained,
  each in its own call of \<open>deliverReplies\<close>; a call that throws is logged and the chain
  goes on. The state is \<open>didSendReply\<close> and the log of calls.\<close>

definition blockIsEmpty :: "ReplyPayload \<Rightarrow> bool" where
  "blockIsEmpty payload \<longleftrightarrow>
     orDefault (pl_text payload) [] = []
     \<and> orDefault (pl_mediaUrl payload) [] = []
     \<and> length (orDefault (pl_mediaUrls payload) []) = 0"

fun sendBlockReplies ::
    "World \<Rightarrow> string \<Rightarrow> ReplyToMode \<Rightarrow> nat \<Rightarrow> ReplyPayload list \<Rightarrow> bool \<times> Outbound list
      \<Rightarrow> bool \<times> Outbound list" where
  "sendBlockReplies w target mode limit [] st = st"
| "sendBlockReplies w target mode limit (payload # rest) st =
     (if blockIsEmpty payload then sendBlockReplies w target mode limit rest st
      else
        let delivered = deliverReplies (w_chunkText w) (w_sendOk w) [payload] target mode limit
                          (snd st)
        in sendBlockReplies w target mode limit rest
             (if snd delivered then True else fst st, fst delivered))"

definition repliesOf :: "ReplyResult \<Rightarrow> ReplyPayload list" where
  "repliesOf replyResult =
     (case replyResult of NoReply \<Rightarrow> [] | Single payload \<Rightarrow> [payload] | Many payloads \<Rightarrow> payloads)"

definition clearedHistories :: "Settings \<Rightarrow> Histories \<Rightarrow> Message \<Rightarrow> bool \<Rightarrow> bool \<Rightarrow> Histories" where
  "clearedHistories cfg guildHistories message shouldClearHistory didSendReply =
     (if isGuildMessage message \<and> shouldClearHistory \<and> historyLimit cfg > 0 \<and> didSendReply
      then guildHistories(channelId message \<mapsto> []) else guildHistories)"

text \<open>From the call of \<open>getReplyFromConfig\<close> to the end of the handler.\<close>

definition generateAndDeliver ::
    "Settings \<Rightarrow> World \<Rightarrow> Histories \<Rightarrow> Message \<Rightarrow> MsgContext \<Rightarrow> string option
      \<Rightarrow> HandlerResult" where
  "generateAndDeliver cfg w guildHistories message ctxPayload route =
     (let replyTarget = ctx_To ctxPayload;
          shouldClearHistory = \<not> isDirectMessage message;
          base = \<lparr>hr_histories = guildHistories, hr_calls = [],
                  hr_generated = Some ctxPayload, hr_systemEvents = [],
                  hr_lastRoute = route, hr_outcome = NoReplies\<rparr>
      in case w_getReplyFromConfig w ctxPayload of
           Thrown blocks \<Rightarrow>
             let sent = sendBlockReplies w replyTarget (replyToMode cfg) (textLimit cfg)
                          blocks (False, [])
             in base\<lparr>hr_calls := snd sent, hr_outcome := HandlerFailed GenerationFailed\<rparr>
         | Returned blocks replyResult \<Rightarrow>
             let replies = repliesOf replyResult;
                 sent = sendBlockReplies w replyTarget (replyToMode cfg) (textLimit cfg)
                          blocks (False, []);
                 didSendReply = fst sent
             in if length replies = 0
                then base\<lparr>hr_histories :=
                            clearedHistories cfg guildHistories message shouldClearHistory
                              didSendReply,
                          hr_calls := snd sent, hr_outcome := NoReplies\<rparr>
                else
                  let delivered = deliverReplies (w_chunkText w) (w_sendOk w) replies
                                    replyTarget (replyToMode cfg) (textLimit cfg) (snd sent)
                  in if \<not> snd delivered
                     then base\<lparr>hr_calls := fst delivered,
                               hr_outcome := HandlerFailed DeliveryFailed\<rparr>
                     else base\<lparr>hr_histories :=
                                 clearedHistories cfg guildHistories message
                                   shouldClearHistory True,
                               hr_calls := fst delivered, hr_outcome := Delivered\<rparr>)"

text \<open>From \<open>resolveDiscordSystemEvent\<close> on, for a message that passed the gates.\<close>

definition runTurn :: "Settings \<Rightarrow> World \<Rightarrow> Histories \<Rightarrow> Message \<Rightarrow> Author \<Rightarrow> HandlerResult" where
  "runTurn cfg w guildHistories message a =
     (case resolveDiscordSystemEvent message of
        Some systemText \<Rightarrow>
          (finish guildHistories SystemEventQueued)
            \<lparr>hr_systemEvents :=
               [(systemText, ''discord:system:'' @ channelId message @ '':'' @ msgId message)]\<rparr>
      | None \<Rightarrow>
          (case resolveMedia w message (mediaMaxBytes cfg) of
             Inl err \<Rightarrow> finish guildHistories (HandlerFailed err)
           | Inr media \<Rightarrow>
               let messageText = messageTextOf message media
               in if messageText = [] then finish guildHistories (Dropped EmptyContent)
                  else
                    let ctxPayload = ctxPayloadOf cfg w guildHistories message a media
                                       messageText
                    in if ctx_To ctxPayload = []
                       then finish guildHistories (Dropped MissingReplyTarget)
                       else if isDirectMessage message \<and> \<not> w_updateLastRouteOk w
                       then finish guildHistories (HandlerFailed UpdateLastRouteFailed)
                       else generateAndDeliver cfg w guildHistories message ctxPayload
                              (if isDirectMessage message then Some (''user:'' @ a_id a)
                               else None)))"

text \<open>The handler registered for \<open>Events.MessageCreate\<close>, run on the history map
  \<open>guildHistories\<close>.\<close>

definition handleMessageCreate :: "Settings \<Rightarrow> World \<Rightarrow> Histories \<Rightarrow> Message \<Rightarrow> HandlerResult" where
  "handleMessageCreate cfg w guildHistories message =
     (case gateBeforeHistory cfg message of
        Some reason \<Rightarrow> finish guildHistories (Dropped reason)
      | None \<Rightarrow>
          (case author message of
             None \<Rightarrow> finish guildHistories (Dropped NoAuthor)
           | Some a \<Rightarrow>
               let guildHistories = appendHistory cfg guildHistories message a
               in case gateAfterHistory cfg w message a of
                    Some reason \<Rightarrow> finish guildHistories (Dropped reason)
                  | None \<Rightarrow> runTurn cfg w guildHistories message a))"

section \<open>Notions used in the statements\<close>

text \<open>A raw entry is blank when it is empty or whitespace only (after \<open>String(rawEntry).trim()\<close>).\<close>

definition isBlank :: "raw_entry \<Rightarrow> bool" where
  "isBlank e \<longleftrightarrow> trim (String e) = []"

definition emptyCandidate :: candidate where
  "emptyCandidate = \<lparr>cand_id = None, cand_name = None, cand_tag = None\<rparr>"

text \<open>
  What the delivery of one payload sends, in the words of the specification: nothing for
  a payload without text and media; one message per chunk for a text-only payload; for a
  payload with media one message per media URL, the first with the text as caption, the
  others with an empty caption. A send is given as its text and its media URL.
\<close>

definition expectedSends ::
    "(string \<Rightarrow> nat \<Rightarrow> string list) \<Rightarrow> nat \<Rightarrow> ReplyPayload \<Rightarrow> (string \<times> string option) list" where
  "expectedSends chunkText limit payload =
     (case mediaListOf payload of
        [] \<Rightarrow> if textOf payload = [] then []
              else map (\<lambda>chunk. (chunk, None)) (chunkText (textOf payload) limit)
      | u # us \<Rightarrow> (textOf payload, Some u) # map (\<lambda>v. ([], Some v)) us)"

text \<open>A part is one send to make: text, media URL, and the \<open>replyToId\<close> of its payload.\<close>

type_synonym Part = "string \<times> string option \<times> string option"

definition partsOf :: "(string \<Rightarrow> nat \<Rightarrow> string list) \<Rightarrow> nat \<Rightarrow> ReplyPayload \<Rightarrow> Part list" where
  "partsOf chunkText limit payload =
     map (\<lambda>bm. (fst bm, snd bm, pl_replyToId payload)) (expectedSends chunkText limit payload)"

text \<open>The calls that a list of parts leads to when no send throws, from the flag \<open>h\<close>.\<close>

fun planCalls :: "ReplyToMode \<Rightarrow> string \<Rightarrow> bool \<Rightarrow> Part list \<Rightarrow> Outbound list" where
  "planCalls mode target h [] = []"
| "planCalls mode target h (part # parts) =
     (let r = resolveDiscordReplyTarget mode (snd (snd part)) h
      in \<lparr>ob_target = target, ob_text = fst part, ob_mediaUrl = fst (snd part), ob_replyTo = r\<rparr>
           # planCalls mode target (h \<or> r \<noteq> None) parts)"

text \<open>The three loops of \<open>deliverReplies\<close> as one loop over parts (used in the proofs).\<close>

fun runParts ::
    "(nat \<Rightarrow> bool) \<Rightarrow> ReplyToMode \<Rightarrow> string \<Rightarrow> Part list \<Rightarrow> DeliveryState
      \<Rightarrow> Outbound list + DeliveryState" where
  "runParts sendOk mode target [] st = Inr st"
| "runParts sendOk mode target (part # parts) st =
     (case sendOne sendOk mode target (snd (snd part)) (fst part) (fst (snd part)) st of
        Inl log \<Rightarrow> Inl log
      | Inr st' \<Rightarrow> runParts sendOk mode target parts st')"

fun mediaParts :: "string \<Rightarrow> bool \<Rightarrow> string option \<Rightarrow> string list \<Rightarrow> Part list" where
  "mediaParts body first rid [] = []"
| "mediaParts body first rid (u # us) =
     ((if first then body else []), Some u, rid) # mediaParts body False rid us"

definition logOf :: "Outbound list + DeliveryState \<Rightarrow> Outbound list" where
  "logOf r = (case r of Inl log \<Rightarrow> log | Inr st \<Rightarrow> snd st)"

text \<open>The calls a delivery has added to the log \<open>calls\<close> it started with.\<close>

definition newCalls :: "Outbound list \<Rightarrow> Outbound list \<times> bool \<Rightarrow> Outbound list" where
  "newCalls calls r = drop (length calls) (fst r)"

definition threaded :: "Outbound \<Rightarrow> bool" where
  "threaded c \<longleftrightarrow> ob_replyTo c \<noteq> None"

text \<open>A payload carries a \<open>replyToId\<close> when the id is there and not blank.\<close>

definition hasReplyToId :: "ReplyPayload \<Rightarrow> bool" where
  "hasReplyToId payload \<longleftrightarrow>
     (case pl_replyToId payload of None \<Rightarrow> False | Some r \<Rightarrow> trim r \<noteq> [])"

definition onlyFirstThreaded :: "Outbound list \<Rightarrow> bool" where
  "onlyFirstThreaded cs \<longleftrightarrow>
     (case cs of [] \<Rightarrow> True | c # rest \<Rightarrow> threaded c \<and> (\<forall>d\<in>set rest. \<not> threaded d))"

definition nonblank :: "string option \<Rightarrow> bool" where
  "nonblank rid \<longleftrightarrow> (case rid of None \<Rightarrow> False | Some r \<Rightarrow> trim r \<noteq> [])"

text \<open>The reply reference of a part in mode \<open>all\<close>: the trimmed \<open>replyToId\<close> of its payload
  when that is not blank.\<close>

definition referenceOf :: "Part \<Rightarrow> string option" where
  "referenceOf part =
     (if nonblank (snd (snd part)) then map_option trim (snd (snd part)) else None)"

text \<open>The handler run on a sequence of events, one after the other, each in its own
  environment; the history map is the only state that goes from one run to the next.\<close>

fun runEvents :: "Settings \<Rightarrow> Histories \<Rightarrow> (World \<times> Message) list \<Rightarrow> Histories" where
  "runEvents cfg guildHistories [] = guildHistories"
| "runEvents cfg guildHistories (ev # evs) =
     runEvents cfg (hr_histories (handleMessageCreate cfg (fst ev) guildHistories (snd ev))) evs"

definition bounded :: "Settings \<Rightarrow> Histories \<Rightarrow> bool" where
  "bounded cfg guildHistories \<longleftrightarrow>
     (\<forall>chanId. length (historyOf guildHistories chanId) \<le> historyLimit cfg)"

text \<open>The history map as the handler has it when the gates are passed or the message is
  dropped: with the entry of this message appended, unless a gate before the append
  dropped the message.\<close>

definition afterAppend :: "Settings \<Rightarrow> Histories \<Rightarrow> Message \<Rightarrow> Histories" where
  "afterAppend cfg guildHistories message =
     (case gateBeforeHistory cfg message of
        Some reason \<Rightarrow> guildHistories
      | None \<Rightarrow> (case author message of
                   None \<Rightarrow> guildHistories
                 | Some a \<Rightarrow> appendHistory cfg guildHistories message a))"

text \<open>The value of \<open>didSendReply\<close> when the chain of block replies has run: whether the
  call of \<open>deliverReplies\<close> for at least one non-empty block reply returned.\<close>

definition blocksReplied :: "World \<Rightarrow> string \<Rightarrow> ReplyToMode \<Rightarrow> nat \<Rightarrow> ReplyPayload list \<Rightarrow> bool" where
  "blocksReplied w target mode limit blocks =
     fst (sendBlockReplies w target mode limit blocks (False, []))"

text \<open>At least one call of the log of a handler run resolved: call number \<open>n\<close> of the run
  resolves when \<open>w_sendOk w n\<close>. Then a message has gone out.\<close>

definition somethingSent :: "World \<Rightarrow> Outbound list \<Rightarrow> bool" where
  "somethingSent w calls \<longleftrightarrow> list_ex (w_sendOk w) [0..<length calls]"

section \<open>Concrete inputs\<close>

text \<open>An environment in which nothing fails: the bot's id is \<open>bot\<close>, every download is
  answered 404 (no example below downloads unless it says so), the envelope is the body
  alone, a text is one chunk, and the generator stays silent.\<close>

definition exampleWorld :: World where
  "exampleWorld =
     \<lparr>w_botId = Some ''bot'',
      w_fetch = (\<lambda>url. Inr \<lparr>res_status = 404, res_contentType = None, res_body = []\<rparr>),
      w_detectMime = (\<lambda>buffer headerMime filePath. headerMime),
      w_saveMediaBuffer = (\<lambda>buffer mime maxBytes.
                             Inr \<lparr>saved_path = ''/tmp/media'', saved_contentType = mime\<rparr>),
      w_fetchReference = (\<lambda>message. Inr None),
      w_formatAgentEnvelope = env_body,
      w_getReplyFromConfig = (\<lambda>ctx. Returned [] NoReply),
      w_chunkText = (\<lambda>body limit. [body]),
      w_sendOk = (\<lambda>n. True),
      w_updateLastRouteOk = True\<rparr>"

definition exampleAuthor :: Author where
  "exampleAuthor = \<lparr>a_id = ''7'', a_bot = False, a_username = ''alice'', a_tag = ''alice#1''\<rparr>"

text \<open>A message in channel \<open>c1\<close> of a guild, with text \<open>hello\<close>, that mentions the bot.\<close>

definition exampleGuildMessage :: Message where
  "exampleGuildMessage =
     \<lparr>author = Some exampleAuthor,
      memberDisplayName = None,
      channelType = OtherChannel,
      channelName = Named ''general'',
      guild = Some \<lparr>g_id = ''1'', g_name = ''Guild One''\<rparr>,
      msgType = Default,
      msgId = ''m1'',
      channelId = ''c1'',
      content = Some ''hello'',
      attachments = [],
      embeds = [],
      mentions = [''bot''],
      createdTimestamp = 1000,
      messageSnapshots = [],
      reference = None\<rparr>"

definition noOpts :: MonitorDiscordOpts where
  "noOpts = \<lparr>o_mediaMaxMb = None, o_historyLimit = None, o_replyToMode = None\<rparr>"

text \<open>The settings when nothing is configured.\<close>

definition defaultSettings :: Settings where
  "defaultSettings = resolveSettings noOpts None 2000"

definition textPayload :: "string \<Rightarrow> string option \<Rightarrow> ReplyPayload" where
  "textPayload body rid =
     \<lparr>pl_text = Some body, pl_mediaUrl = None, pl_mediaUrls = None, pl_replyToId = rid\<rparr>"

definition mediaPayload :: "string \<Rightarrow> string list \<Rightarrow> string option \<Rightarrow> ReplyPayload" where
  "mediaPayload body urls rid =
     \<lparr>pl_text = Some body, pl_mediaUrl = None, pl_mediaUrls = Some urls, pl_replyToId = rid\<rparr>"

text \<open>A generator that streams one block reply and then returns one final reply, both
  with the \<open>replyToId\<close> of the inbound message.\<close>

definition streamingWorld :: World where
  "streamingWorld =
     exampleWorld\<lparr>w_getReplyFromConfig :=
       (\<lambda>ctx. Returned [textPayload ''a'' (Some ''m1'')] (Single (textPayload ''b'' (Some ''m1''))))\<rparr>"

text \<open>The two payloads of the scenario of claim C9.\<close>

definition part1Payload :: ReplyPayload where
  "part1Payload =
     \<lparr>pl_text = Some ''part1'', pl_mediaUrl = None, pl_mediaUrls = None, pl_replyToId = None\<rparr>"

definition imagePayload :: ReplyPayload where
  "imagePayload =
     \<lparr>pl_text = Some [], pl_mediaUrl = Some ''http://x/img.jpg'', pl_mediaUrls = None,
      pl_replyToId = None\<rparr>"

text \<open>Three payloads with two media each, answering message \<open>m1\<close>.\<close>

definition threePayloads :: "ReplyPayload list" where
  "threePayloads =
     [mediaPayload ''one'' [''u1'', ''u2''] (Some ''m1''),
      mediaPayload ''two'' [''u3'', ''u4''] (Some ''m1''),
      mediaPayload ''three'' [''u5'', ''u6''] (Some ''m1'')]"

text \<open>Two entries recorded earlier in channel \<open>c1\<close>.\<close>

definition firstEntry :: DiscordHistoryEntry where
  "firstEntry = \<lparr>he_sender = ''bob#2'', he_body = ''one'', he_timestamp = Some 10,
                  he_messageId = Some ''k1''\<rparr>"

definition secondEntry :: DiscordHistoryEntry where
  "secondEntry = \<lparr>he_sender = ''carol#3'', he_body = ''two'', he_timestamp = Some 20,
                   he_messageId = Some ''k2''\<rparr>"

text \<open>A direct message from the same author, and settings whose \<open>allowFrom\<close> lists one
  other user.\<close>

definition exampleDirectMessage :: Message where
  "exampleDirectMessage =
     exampleGuildMessage\<lparr>channelType := DM, channelName := NoName, guild := None,
                          mentions := []\<rparr>"

definition restrictedSettings :: Settings where
  "restrictedSettings = defaultSettings\<lparr>allowFrom := Some [RawStr ''12345'']\<rparr>"

text \<open>A generator that answers every turn with the text \<open>hi\<close>.\<close>

definition answeringWorld :: World where
  "answeringWorld =
     exampleWorld\<lparr>w_getReplyFromConfig := (\<lambda>ctx. Returned [] (Single (textPayload ''hi'' None)))\<rparr>"

text \<open>The example message without the mention, an environment in which the bot's own id
  is not known, and settings whose entry for guild \<open>1\<close> lists one user, who is not the
  author.\<close>

definition unmentionedMessage :: Message where
  "unmentionedMessage = exampleGuildMessage\<lparr>mentions := []\<rparr>"

definition anonymousWorld :: World where
  "anonymousWorld = answeringWorld\<lparr>w_botId := None\<rparr>"

definition guildUsersSettings :: Settings where
  "guildUsersSettings =
     defaultSettings\<lparr>guildEntries :=
       Some [(''1'', \<lparr>ge_id = None, ge_slug = None, ge_requireMention = None,
                      ge_reactionNotifications = None, ge_users = Some [RawStr ''999''],
                      ge_channels = None\<rparr>)]\<rparr>"

text \<open>The example message with an image attached; in \<open>exampleWorld\<close> its download is
  answered 404.\<close>

definition attachmentMessage :: Message where
  "attachmentMessage =
     exampleGuildMessage\<lparr>attachments :=
       [\<lparr>att_url = ''http://cdn/file.png'', att_contentType = Some ''image/png'',
          att_name = Some ''file.png''\<rparr>]\<rparr>"

text \<open>A generator that returns two texts, in an environment where the second send
  throws.\<close>

definition failingSendWorld :: World where
  "failingSendWorld =
     exampleWorld\<lparr>w_getReplyFromConfig :=
                    (\<lambda>ctx. Returned [] (Many [textPayload ''a'' None, textPayload ''b'' None])),
                  w_sendOk := (\<lambda>n. n = 0)\<rparr>"

text \<open>A second message in channel \<open>c1\<close>, which mentions the bot.\<close>

definition secondMessage :: Message where
  "secondMessage = exampleGuildMessage\<lparr>msgId := ''m2'', content := Some ''second''\<rparr>"

text \<open>The example message in a guild named \<open>constructor\<close>, and settings whose only
  guild entry is the wildcard: it asks for no mention and lists one user, who is not the
  author.\<close>

definition constructorGuildMessage :: Message where
  "constructorGuildMessage =
     exampleGuildMessage\<lparr>guild := Some \<lparr>g_id = ''1'', g_name = ''constructor''\<rparr>\<rparr>"

definition wildcardSettings :: Settings where
  "wildcardSettings =
     defaultSettings\<lparr>guildEntries :=
       Some [(''*'', \<lparr>ge_id = None, ge_slug = None, ge_requireMention = Some False,
                      ge_reactionNotifications = None, ge_users = Some [RawStr ''999''],
                      ge_channels = None\<rparr>)]\<rparr>"

section \<open>Verified properties\<close>

subsection \<open>Numbers and inherited properties\<close>

text \<open>A number entry is matched as JavaScript prints it: the entry \<open>2 ^ 60\<close> lists the id
  \<open>1152921504606847000\<close>, and not the id \<open>1152921504606846976\<close>.\<close>

lemma number_entry_as_printed:
  "normalizeDiscordAllowList (Some [RawNum (Number ''1152921504606847000'')])
     [''discord:'', ''user:'']
     = Some \<lparr>allowAll = False, ids = {''1152921504606847000''}, names = {}\<rparr>"
  by (simp add: normalizeDiscordAllowList_def addRawEntry_def mentionMatch_def trim_def
        isWhitespace_def isDigit_def startsWith_def toLowerCase_def toLowerChar_def
        upperChars_def lowerChars_def)

text \<open>A guild named \<open>constructor\<close> resolves to the inherited member, although the guild
  entries hold only a wildcard entry: no \<open>requireMention\<close>, no users, no channels.\<close>

lemma inherited_guild_member:
  "resolveDiscordGuildEntry (Some \<lparr>g_id = ''1'', g_name = ''constructor''\<rparr>)
     (Some [(''*'', \<lparr>ge_id = None, ge_slug = None, ge_requireMention = Some False,
                      ge_reactionNotifications = None, ge_users = Some [RawStr ''999''],
                      ge_channels = None\<rparr>)])
   = Some \<lparr>ge_id = Some ''1'', ge_slug = Some ''constructor'', ge_requireMention = None,
            ge_reactionNotifications = None, ge_users = None, ge_channels = None\<rparr>"
  by (simp add: resolveDiscordGuildEntry_def getProperty_def objectPrototypeNames_def
        inheritedGuildEntry_def resolvedEntry_def orDefault_def normalizeDiscordSlug_def
        trim_def isWhitespace_def isLowerAlnumDash_def isDigit_def toLowerCase_def
        toLowerChar_def upperChars_def lowerChars_def Let_def)

text \<open>A channel named \<open>constructor\<close> is allowed although it is not listed, and the inherited
  member comes before the entry under the key \<open>#constructor\<close>.\<close>

lemma inherited_channel_member:
  "resolveDiscordChannelConfig
     (Some \<lparr>ge_id = Some ''1'', ge_slug = Some ''g'', ge_requireMention = Some False,
             ge_reactionNotifications = None, ge_users = None,
             ge_channels = Some [(''#constructor'',
                                  \<lparr>ce_allow = Some False, ce_requireMention = Some True\<rparr>)]\<rparr>)
     ''c1'' (Some ''constructor'') ''constructor''
   = \<lparr>cc_allowed = True, cc_requireMention = None\<rparr>"
  by (simp add: resolveDiscordChannelConfig_def getProperty_def objectPrototypeNames_def
        inheritedChannelEntry_def orElse_def)

subsection \<open>Allow-lists\<close>

lemma trim_star: "trim ''*'' = ''*''"
  by (simp add: trim_def isWhitespace_def)

lemma addRawEntry_keeps_allowAll: "allowAll acc \<Longrightarrow> allowAll (addRawEntry pfxs acc e)"
  by (simp add: addRawEntry_def Let_def split: option.splits)

lemma addRawEntry_star: "allowAll (addRawEntry pfxs acc (RawStr ''*''))"
  by (simp add: addRawEntry_def trim_star)

lemma foldl_keeps_allowAll: "allowAll acc \<Longrightarrow> allowAll (foldl (addRawEntry pfxs) acc es)"
  by (induction es arbitrary: acc) (simp_all add: addRawEntry_keeps_allowAll)

lemma foldl_star: "RawStr ''*'' \<in> set es \<Longrightarrow> allowAll (foldl (addRawEntry pfxs) acc es)"
proof (induction es arbitrary: acc)
  case Nil
  then show ?case by simp
next
  case (Cons e es)
  show ?case
  proof (cases "e = RawStr ''*''")
    case True
    then show ?thesis by (simp add: foldl_keeps_allowAll addRawEntry_star)
  next
    case False
    with Cons.prems have "RawStr ''*'' \<in> set es" by simp
    then show ?thesis by (simp add: Cons.IH)
  qed
qed

text \<open>
  Claim C4. A raw allow-list that contains the entry \<open>"*"\<close> is built into an allow-list
  (not \<open>null\<close>) with \<open>allowAll = true\<close>, whatever the other entries and the prefixes are, and
  \<open>allowListMatches\<close> on it is true for every candidate, the candidate without id, name
  and tag included.
\<close>

theorem wildcard_allows_every_candidate:
  assumes "RawStr ''*'' \<in> set raw"
  shows "\<exists>allowList. normalizeDiscordAllowList (Some raw) pfxs = Some allowList
           \<and> allowAll allowList
           \<and> (\<forall>cand. allowListMatches allowList cand)
           \<and> allowListMatches allowList emptyCandidate"
proof -
  let ?r = "foldl (addRawEntry pfxs) \<lparr>allowAll = False, ids = {}, names = {}\<rparr> raw"
  from assms have nonempty: "raw \<noteq> []" by auto
  from assms have all: "allowAll ?r" by (rule foldl_star)
  then have "normalizeDiscordAllowList (Some raw) pfxs = Some ?r"
    using nonempty by (simp add: normalizeDiscordAllowList_def Let_def)
  moreover from all have "\<forall>cand. allowListMatches ?r cand"
    by (simp add: allowListMatches_def)
  ultimately show ?thesis using all by simp
qed

theorem wildcard_allows_every_candidate_witness:
  "RawStr ''*'' \<in> set [RawStr ''alice'', RawStr ''*'']
   \<and> (\<exists>allowList. normalizeDiscordAllowList (Some [RawStr ''alice'', RawStr ''*''])
                       [''discord:'', ''user:''] = Some allowList
           \<and> allowAll allowList
           \<and> (\<forall>cand. allowListMatches allowList cand)
           \<and> allowListMatches allowList emptyCandidate)"
  using wildcard_allows_every_candidate
          [of "[RawStr ''alice'', RawStr ''*'']" "[''discord:'', ''user:'']"]
  by simp

lemma addRawEntry_blank: "isBlank e \<Longrightarrow> addRawEntry pfxs acc e = acc"
  by (simp add: addRawEntry_def isBlank_def)

lemma foldl_filter_blank:
  "foldl (addRawEntry pfxs) acc (filter (\<lambda>e. \<not> isBlank e) es) = foldl (addRawEntry pfxs) acc es"
  by (induction es arbitrary: acc) (simp_all add: addRawEntry_blank)

lemma foldl_all_blank:
  "\<forall>e\<in>set es. isBlank e \<Longrightarrow> foldl (addRawEntry pfxs) acc es = acc"
  by (induction es arbitrary: acc) (simp_all add: addRawEntry_blank)

lemma normalize_ignores_blank:
  "normalizeDiscordAllowList (Some (filter (\<lambda>e. \<not> isBlank e) raw)) pfxs
     = normalizeDiscordAllowList (Some raw) pfxs"
proof (cases "filter (\<lambda>e. \<not> isBlank e) raw = []")
  case True
  then have "\<forall>e\<in>set raw. isBlank e" by (simp add: filter_empty_conv)
  then have "foldl (addRawEntry pfxs) \<lparr>allowAll = False, ids = {}, names = {}\<rparr> raw
               = \<lparr>allowAll = False, ids = {}, names = {}\<rparr>"
    by (rule foldl_all_blank)
  with True show ?thesis by (simp add: normalizeDiscordAllowList_def Let_def)
next
  case False
  then have "raw \<noteq> []" by auto
  with False show ?thesis
    by (simp add: normalizeDiscordAllowList_def foldl_filter_blank)
qed

lemma normalize_never_empty:
  "normalizeDiscordAllowList rawOpt pfxs = Some allowList
     \<Longrightarrow> allowAll allowList \<or> ids allowList \<noteq> {} \<or> names allowList \<noteq> {}"
  unfolding normalizeDiscordAllowList_def Let_def
  by (cases rawOpt) (auto split: if_splits)

lemma normalize_empty: "normalizeDiscordAllowList (Some []) pfxs = None"
  by (simp add: normalizeDiscordAllowList_def)

lemma normalize_undefined: "normalizeDiscordAllowList None pfxs = None"
  by (simp add: normalizeDiscordAllowList_def)

text \<open>
  Claim C5, as the code has it. Blank raw entries are ignored: the list built from the raw
  list is the one built from its entries that are not blank. An empty (or missing) raw
  list gives \<open>null\<close>. No result has \<open>allowAll = false\<close> and both sets empty: the builder
  returns \<open>null\<close> in their place.
\<close>

theorem allowlist_builder:
  "normalizeDiscordAllowList (Some (filter (\<lambda>e. \<not> isBlank e) raw)) pfxs
     = normalizeDiscordAllowList (Some raw) pfxs
   \<and> normalizeDiscordAllowList (Some []) pfxs = None
   \<and> normalizeDiscordAllowList None pfxs = None
   \<and> (\<forall>allowList. normalizeDiscordAllowList rawOpt pfxs = Some allowList
         \<longrightarrow> allowAll allowList \<or> ids allowList \<noteq> {} \<or> names allowList \<noteq> {})"
  using normalize_ignores_blank normalize_empty normalize_undefined normalize_never_empty
  by blast

lemma normalize_example:
  "normalizeDiscordAllowList (Some [RawStr ''  '', RawStr ''<@!42>'', RawStr ''@Some_Name''])
     [''discord:'', ''user:'']
   = Some \<lparr>allowAll = False, ids = {''42''}, names = {''some_name'', ''some-name''}\<rparr>"
  by code_simp

theorem allowlist_builder_witness:
  "normalizeDiscordAllowList (Some [RawStr ''  '', RawStr ''<@!42>'', RawStr ''@Some_Name''])
     [''discord:'', ''user:'']
     = Some \<lparr>allowAll = False, ids = {''42''}, names = {''some_name'', ''some-name''}\<rparr>
   \<and> (allowAll \<lparr>allowAll = False, ids = {''42''}, names = {''some_name'', ''some-name''}\<rparr>
      \<or> ids \<lparr>allowAll = False, ids = {''42''}, names = {''some_name'', ''some-name''}\<rparr> \<noteq> {}
      \<or> names \<lparr>allowAll = False, ids = {''42''}, names = {''some_name'', ''some-name''}\<rparr> \<noteq> {})"
  using allowlist_builder
          [of "[]" "[''discord:'', ''user:'']"
              "Some [RawStr ''  '', RawStr ''<@!42>'', RawStr ''@Some_Name'']"]
        normalize_example
  by blast

text \<open>
  The part of claim C5 that fails: a raw list that is not empty and whose only entry is
  not blank can still yield no id and no name. The entry \<open>"@"\<close> loses its \<open>@\<close>, nothing is
  left, and the builder returns \<open>null\<close>.
\<close>

theorem nonblank_entry_can_yield_nothing:
  "[RawStr ''@''] \<noteq> [] \<and> \<not> isBlank (RawStr ''@'')
   \<and> normalizeDiscordAllowList (Some [RawStr ''@'']) [''discord:'', ''user:''] = None"
  by (simp add: isBlank_def normalizeDiscordAllowList_def addRawEntry_def trim_def
        isWhitespace_def mentionMatch_def startsWith_def normalizeDiscordName_def
        normalizeDiscordSlug_def toLowerCase_def)

subsection \<open>Delivery: the loops as a plan of calls\<close>

lemma resolve_truthy:
  "(case resolveDiscordReplyTarget mode rid h of None \<Rightarrow> False | Some r \<Rightarrow> r \<noteq> [])
     = (resolveDiscordReplyTarget mode rid h \<noteq> None)"
  by (auto simp: resolveDiscordReplyTarget_def split: option.splits)

lemma sendOne_Inr:
  "sendOk (length calls) \<Longrightarrow>
   sendOne sendOk mode target rid body media (h, calls)
     = Inr (h \<or> resolveDiscordReplyTarget mode rid h \<noteq> None,
            calls @ [\<lparr>ob_target = target, ob_text = body, ob_mediaUrl = media,
                      ob_replyTo = resolveDiscordReplyTarget mode rid h\<rparr>])"
  using resolve_truthy [of mode rid h]
  by (auto simp: sendOne_def Let_def)

lemma sendOne_Inl:
  "\<not> sendOk (length calls) \<Longrightarrow>
   sendOne sendOk mode target rid body media (h, calls)
     = Inl (calls @ [\<lparr>ob_target = target, ob_text = body, ob_mediaUrl = media,
                      ob_replyTo = resolveDiscordReplyTarget mode rid h\<rparr>])"
  by (simp add: sendOne_def Let_def)

lemma sendChunks_runParts:
  "sendChunks sendOk mode target rid chunks st
     = runParts sendOk mode target (map (\<lambda>c. (c, None, rid)) chunks) st"
  by (induction chunks arbitrary: st) (simp_all split: sum.splits)

lemma sendMedia_runParts:
  "sendMedia sendOk mode target rid body first urls st
     = runParts sendOk mode target (mediaParts body first rid urls) st"
  by (induction urls arbitrary: st first) (simp_all split: sum.splits)

lemma mediaParts_rest: "mediaParts body False rid us = map (\<lambda>v. ([], Some v, rid)) us"
  by (induction us) simp_all

lemma runParts_append:
  "runParts sendOk mode target (ps @ qs) st
     = (case runParts sendOk mode target ps st of
          Inl log \<Rightarrow> Inl log
        | Inr st' \<Rightarrow> runParts sendOk mode target qs st')"
  by (induction ps arbitrary: st) (simp_all split: sum.splits)

lemma partsOf_cases:
  "partsOf chunkText limit payload =
     (if mediaListOf payload = []
      then (if textOf payload = [] then []
            else map (\<lambda>c. (c, None, pl_replyToId payload)) (chunkText (textOf payload) limit))
      else mediaParts (textOf payload) True (pl_replyToId payload) (mediaListOf payload))"
  by (cases "mediaListOf payload")
     (simp_all add: partsOf_def expectedSends_def mediaParts_rest comp_def)

lemma deliverLoop_runParts:
  "deliverLoop chunkText sendOk mode target limit replies st
     = runParts sendOk mode target (concat (map (partsOf chunkText limit) replies)) st"
proof (induction replies arbitrary: st)
  case Nil
  then show ?case by simp
next
  case (Cons payload rest)
  show ?case
    by (simp add: Let_def runParts_append partsOf_cases sendChunks_runParts
          sendMedia_runParts Cons.IH split: sum.splits)
qed

lemma runParts_all_ok:
  "\<forall>n. sendOk n \<Longrightarrow>
   \<exists>h'. runParts sendOk mode target parts (h, calls)
           = Inr (h', calls @ planCalls mode target h parts)"
proof (induction parts arbitrary: h calls)
  case Nil
  then show ?case by simp
next
  case (Cons part parts)
  from Cons.prems have ok: "sendOk (length calls)" by simp
  let ?r = "resolveDiscordReplyTarget mode (snd (snd part)) h"
  let ?c = "\<lparr>ob_target = target, ob_text = fst part, ob_mediaUrl = fst (snd part),
             ob_replyTo = ?r\<rparr>"
  from Cons.IH [OF Cons.prems, of "h \<or> ?r \<noteq> None" "calls @ [?c]"]
  obtain h' where "runParts sendOk mode target parts (h \<or> ?r \<noteq> None, calls @ [?c])
                     = Inr (h', (calls @ [?c]) @ planCalls mode target (h \<or> ?r \<noteq> None) parts)"
    by blast
  then have "runParts sendOk mode target (part # parts) (h, calls)
               = Inr (h', calls @ planCalls mode target h (part # parts))"
    using ok by (simp add: sendOne_Inr Let_def)
  then show ?case by blast
qed

lemma runParts_prefix:
  "\<exists>k. logOf (runParts sendOk mode target parts (h, calls))
          = calls @ take k (planCalls mode target h parts)"
proof (induction parts arbitrary: h calls)
  case Nil
  then show ?case by (simp add: logOf_def)
next
  case (Cons part parts)
  show ?case
  proof (cases "sendOk (length calls)")
    case True
    let ?r = "resolveDiscordReplyTarget mode (snd (snd part)) h"
    let ?c = "\<lparr>ob_target = target, ob_text = fst part, ob_mediaUrl = fst (snd part),
               ob_replyTo = ?r\<rparr>"
    from Cons.IH [of "h \<or> ?r \<noteq> None" "calls @ [?c]"]
    obtain k where "logOf (runParts sendOk mode target parts (h \<or> ?r \<noteq> None, calls @ [?c]))
                      = (calls @ [?c]) @ take k (planCalls mode target (h \<or> ?r \<noteq> None) parts)"
      by blast
    then have "logOf (runParts sendOk mode target (part # parts) (h, calls))
                 = calls @ take (Suc k) (planCalls mode target h (part # parts))"
      using True by (simp add: sendOne_Inr Let_def)
    then show ?thesis by blast
  next
    case False
    have "logOf (runParts sendOk mode target (part # parts) (h, calls))
            = calls @ take (Suc 0) (planCalls mode target h (part # parts))"
      using False by (simp add: sendOne_Inl Let_def logOf_def)
    then show ?thesis by blast
  qed
qed

lemma deliverReplies_prefix:
  "\<exists>k. fst (deliverReplies chunkText sendOk replies target mode limit calls)
          = calls @ take k (planCalls mode target False
                              (concat (map (partsOf chunkText (min limit 2000)) replies)))"
proof -
  obtain k where
    "logOf (runParts sendOk mode target
              (concat (map (partsOf chunkText (min limit 2000)) replies)) (False, calls))
       = calls @ take k (planCalls mode target False
                           (concat (map (partsOf chunkText (min limit 2000)) replies)))"
    using runParts_prefix by blast
  then have "fst (deliverReplies chunkText sendOk replies target mode limit calls)
          = calls @ take k (planCalls mode target False
                              (concat (map (partsOf chunkText (min limit 2000)) replies)))"
    by (auto simp: deliverReplies_def deliverLoop_runParts logOf_def Let_def split: sum.splits)
  then show ?thesis by blast
qed

lemma deliverReplies_all_ok:
  assumes "\<forall>n. sendOk n"
  shows "deliverReplies chunkText sendOk replies target mode limit calls
          = (calls @ planCalls mode target False
                       (concat (map (partsOf chunkText (min limit 2000)) replies)), True)"
proof -
  obtain h' where
    "runParts sendOk mode target
              (concat (map (partsOf chunkText (min limit 2000)) replies)) (False, calls)
       = Inr (h', calls @ planCalls mode target False
                           (concat (map (partsOf chunkText (min limit 2000)) replies)))"
    using runParts_all_ok [OF assms] by blast
  then show ?thesis
    by (simp add: deliverReplies_def deliverLoop_runParts Let_def)
qed


lemma newCalls_prefix:
  "\<exists>k. newCalls calls (deliverReplies chunkText sendOk replies target mode limit calls)
          = take k (planCalls mode target False
                      (concat (map (partsOf chunkText (min limit 2000)) replies)))"
  using deliverReplies_prefix [of chunkText sendOk replies target mode limit calls]
  by (auto simp: newCalls_def)

lemma newCalls_all_ok:
  "\<forall>n. sendOk n \<Longrightarrow>
   newCalls calls (deliverReplies chunkText sendOk replies target mode limit calls)
     = planCalls mode target False (concat (map (partsOf chunkText (min limit 2000)) replies))"
  by (simp add: deliverReplies_all_ok newCalls_def)

lemma planCalls_projection:
  "map (\<lambda>c. (ob_text c, ob_mediaUrl c)) (planCalls mode target h parts)
     = map (\<lambda>p. (fst p, fst (snd p))) parts"
  by (induction parts arbitrary: h) (simp_all add: Let_def)

lemma partsOf_projection:
  "map (\<lambda>p. (fst p, fst (snd p))) (concat (map (partsOf chunkText limit) replies))
     = concat (map (expectedSends chunkText limit) replies)"
  by (induction replies) (simp_all add: partsOf_def comp_def)

lemma planCalls_off: "c \<in> set (planCalls ModeOff target h parts) \<Longrightarrow> \<not> threaded c"
  by (induction parts arbitrary: h)
     (auto simp: Let_def threaded_def resolveDiscordReplyTarget_def)

lemma planCalls_all:
  "\<forall>p\<in>set parts. nonblank (snd (snd p)) \<Longrightarrow> c \<in> set (planCalls ModeAll target h parts)
     \<Longrightarrow> threaded c"
  by (induction parts arbitrary: h)
     (auto simp: Let_def threaded_def resolveDiscordReplyTarget_def nonblank_def
           split: option.splits)

lemma planCalls_first_replied:
  "c \<in> set (planCalls ModeFirst target True parts) \<Longrightarrow> \<not> threaded c"
  by (induction parts)
     (auto simp: Let_def threaded_def resolveDiscordReplyTarget_def split: option.splits)

lemma resolve_first_replied: "resolveDiscordReplyTarget ModeFirst rid True = None"
  by (simp add: resolveDiscordReplyTarget_def split: option.splits)

lemma planCalls_first_count:
  "length (filter threaded (planCalls ModeFirst target h parts)) \<le> (if h then 0 else 1)"
proof (induction parts arbitrary: h)
  case Nil
  then show ?case by simp
next
  case (Cons part parts)
  let ?r = "resolveDiscordReplyTarget ModeFirst (snd (snd part)) h"
  let ?c = "\<lparr>ob_target = target, ob_text = fst part, ob_mediaUrl = fst (snd part),
             ob_replyTo = ?r\<rparr>"
  have unfold: "planCalls ModeFirst target h (part # parts)
                  = ?c # planCalls ModeFirst target (h \<or> ?r \<noteq> None) parts"
    by (simp add: Let_def)
  show ?case
  proof (cases h)
    case True
    then have "\<not> threaded ?c" by (simp add: threaded_def resolve_first_replied)
    with True Cons.IH [of True] show ?thesis unfolding unfold by simp
  next
    case False
    show ?thesis
    proof (cases "?r = None")
      case True
      then have "\<not> threaded ?c" by (simp add: threaded_def)
      with True False Cons.IH [of False] show ?thesis unfolding unfold by simp
    next
      case notNone: False
      with False Cons.IH [of True] show ?thesis unfolding unfold by simp
    qed
  qed
qed

lemma planCalls_first_only:
  "\<forall>p\<in>set parts. nonblank (snd (snd p))
     \<Longrightarrow> onlyFirstThreaded (planCalls ModeFirst target False parts)"
proof (cases parts)
  case Nil
  then show ?thesis by (simp add: onlyFirstThreaded_def)
next
  case (Cons part rest)
  assume "\<forall>p\<in>set parts. nonblank (snd (snd p))"
  with Cons have "nonblank (snd (snd part))" by simp
  then have "resolveDiscordReplyTarget ModeFirst (snd (snd part)) False \<noteq> None"
    by (auto simp: nonblank_def resolveDiscordReplyTarget_def split: option.splits)
  with Cons show ?thesis
    using planCalls_first_replied
    by (auto simp: onlyFirstThreaded_def Let_def threaded_def)
qed

lemma onlyFirstThreaded_take: "onlyFirstThreaded cs \<Longrightarrow> onlyFirstThreaded (take k cs)"
  by (cases cs; cases k) (auto simp: onlyFirstThreaded_def dest: in_set_takeD)

lemma filter_take_length: "length (filter P (take k xs)) \<le> length (filter P xs)"
proof -
  have "length (filter P xs) = length (filter P (take k xs)) + length (filter P (drop k xs))"
    by (metis append_take_drop_id filter_append length_append)
  then show ?thesis by simp
qed

lemma parts_nonblank:
  "\<forall>p\<in>set replies. hasReplyToId p
     \<Longrightarrow> \<forall>part\<in>set (concat (map (partsOf chunkText limit) replies)). nonblank (snd (snd part))"
  by (auto simp: partsOf_def hasReplyToId_def nonblank_def)

subsection \<open>Unfolding sets for concrete inputs\<close>

lemmas str_defs = trim_def isWhitespace_def isDigit_def isLowerAlnumDash_def toLowerChar_def
  upperChars_def lowerChars_def toLowerCase_def startsWith_def

lemmas msg_defs = isGroupDm_def isDirectMessage_def isGuildMessage_def botIdKnown_def
  wasMentioned_def forwardedText_def baseText_def guildInfoOf_def channelNameOf_def
  channelSlugOf_def guildSlugOf_def channelConfigOf_def groupDmAllowed_def
  resolvedRequireMention_def senderCandidate_def resolveForwardedSnapshot_def
  resolveDiscordMessageText_def resolveDiscordSnapshotText_def strOr_def orDefault_def
  orElse_def firstDescription_def inferPlaceholder_def resolveDiscordGuildEntry_def
  resolveDiscordChannelConfig_def resolveGroupDmAllow_def mentionGateDrops_def
  guildUserBlocked_def dmSenderBlocked_def resolvedEntry_def getProperty_def
  objectPrototypeNames_def inheritedGuildEntry_def inheritedChannelEntry_def

lemmas ex_defs = exampleWorld_def exampleAuthor_def exampleGuildMessage_def noOpts_def
  defaultSettings_def resolveSettings_def textPayload_def mediaPayload_def streamingWorld_def
  part1Payload_def imagePayload_def threePayloads_def exampleDirectMessage_def
  restrictedSettings_def answeringWorld_def unmentionedMessage_def anonymousWorld_def
  guildUsersSettings_def attachmentMessage_def
  failingSendWorld_def secondMessage_def

lemmas deliver_defs = deliverReplies_def sendOne_def mediaListOf_def textOf_def
  resolveDiscordReplyTarget_def blockIsEmpty_def repliesOf_def newCalls_def

subsection \<open>The handler, stage by stage\<close>

lemma handle_dropped_early:
  "gateBeforeHistory cfg m = Some reason
     \<Longrightarrow> handleMessageCreate cfg w h m = finish h (Dropped reason)"
  by (simp add: handleMessageCreate_def)

lemma gate_has_author: "gateBeforeHistory cfg m = None \<Longrightarrow> \<exists>a. author m = Some a"
  by (cases "author m") (simp_all add: gateBeforeHistory_def)

lemma handle_dropped_late:
  "gateBeforeHistory cfg m = None \<Longrightarrow> author m = Some a
     \<Longrightarrow> gateAfterHistory cfg w m a = Some reason
     \<Longrightarrow> handleMessageCreate cfg w h m = finish (appendHistory cfg h m a) (Dropped reason)"
  by (simp add: handleMessageCreate_def Let_def)

lemma handle_admitted:
  "gateBeforeHistory cfg m = None \<Longrightarrow> author m = Some a
     \<Longrightarrow> gateAfterHistory cfg w m a = None
     \<Longrightarrow> handleMessageCreate cfg w h m = runTurn cfg w (appendHistory cfg h m a) m a"
  by (simp add: handleMessageCreate_def Let_def)

lemma ctx_To_of:
  "ctx_To (ctxPayloadOf cfg w h m a media t)
     = (if isDirectMessage m then ''user:'' @ a_id a else ''channel:'' @ channelId m)"
  by (simp add: ctxPayloadOf_def Let_def)

lemma runTurn_generates:
  "resolveDiscordSystemEvent m = None \<Longrightarrow> resolveMedia w m (mediaMaxBytes cfg) = Inr media
     \<Longrightarrow> messageTextOf m media \<noteq> [] \<Longrightarrow> (isDirectMessage m \<longrightarrow> w_updateLastRouteOk w)
     \<Longrightarrow> runTurn cfg w h m a
           = generateAndDeliver cfg w h m (ctxPayloadOf cfg w h m a media (messageTextOf m media))
               (if isDirectMessage m then Some (''user:'' @ a_id a) else None)"
  by (auto simp: runTurn_def Let_def ctx_To_of)

text \<open>The example message passes every gate, whatever the reply mode and the generator.\<close>

lemma example_gateBefore:
  "gateBeforeHistory (defaultSettings\<lparr>replyToMode := mode\<rparr>) exampleGuildMessage = None"
  by (simp add: gateBeforeHistory_def msg_defs ex_defs)

lemma example_gateAfter:
  "gateAfterHistory (defaultSettings\<lparr>replyToMode := mode\<rparr>)
     (exampleWorld\<lparr>w_getReplyFromConfig := g\<rparr>) exampleGuildMessage exampleAuthor = None"
  by (simp add: gateAfterHistory_def msg_defs ex_defs)

lemma example_turn:
  "handleMessageCreate (defaultSettings\<lparr>replyToMode := mode\<rparr>)
       (exampleWorld\<lparr>w_getReplyFromConfig := g\<rparr>) h exampleGuildMessage
   = generateAndDeliver (defaultSettings\<lparr>replyToMode := mode\<rparr>)
       (exampleWorld\<lparr>w_getReplyFromConfig := g\<rparr>)
       (appendHistory (defaultSettings\<lparr>replyToMode := mode\<rparr>) h exampleGuildMessage
          exampleAuthor)
       exampleGuildMessage
       (ctxPayloadOf (defaultSettings\<lparr>replyToMode := mode\<rparr>)
          (exampleWorld\<lparr>w_getReplyFromConfig := g\<rparr>)
          (appendHistory (defaultSettings\<lparr>replyToMode := mode\<rparr>) h exampleGuildMessage
             exampleAuthor)
          exampleGuildMessage exampleAuthor None ''hello'')
       None"
proof -
  have au: "author exampleGuildMessage = Some exampleAuthor" by (simp add: ex_defs)
  have sys: "resolveDiscordSystemEvent exampleGuildMessage = None"
    by (simp add: resolveDiscordSystemEvent_def systemAction_def ex_defs)
  have med: "resolveMedia (exampleWorld\<lparr>w_getReplyFromConfig := g\<rparr>) exampleGuildMessage
               (mediaMaxBytes (defaultSettings\<lparr>replyToMode := mode\<rparr>)) = Inr None"
    by (simp add: resolveMedia_def ex_defs)
  have mtext: "messageTextOf exampleGuildMessage None = ''hello''"
    by (simp add: messageTextOf_def ex_defs str_defs)
  have dm: "\<not> isDirectMessage exampleGuildMessage" by (simp add: msg_defs ex_defs)
  show ?thesis
    using handle_admitted [OF example_gateBefore au example_gateAfter, of mode g h] mtext dm
    by (simp add: runTurn_generates [OF sys med])
qed

subsection \<open>Reply threading\<close>

lemma planCalls_all_refs:
  "map ob_replyTo (planCalls ModeAll target h parts) = map referenceOf parts"
  by (induction parts arbitrary: h)
     (auto simp: Let_def referenceOf_def nonblank_def resolveDiscordReplyTarget_def
           split: option.splits)

text \<open>
  Claim C1, as the code has it. When no \<open>replyToMode\<close> is configured the mode is \<open>off\<close>.
  The flag \<open>hasReplied\<close> is a local variable of
  \<open>deliverReplies\<close>, so the statement is about the calls of \<open>sendMessageDiscord\<close> that one
  call of \<open>deliverReplies\<close> makes, whether or not a send throws on the way. In mode \<open>off\<close>
  no call carries a reply reference. In mode \<open>all\<close> every call carries one when every
  payload has a \<open>replyToId\<close> that is not blank; in general each call carries the trimmed
  \<open>replyToId\<close> of the payload it belongs to when that is not blank, and none otherwise
  (the references of the calls are a prefix of those of the planned parts). In
  mode \<open>first\<close> at most one call carries a reference, and when every payload has a
  \<open>replyToId\<close> that is not blank it is the first call and no later one.
\<close>

theorem reply_threading_per_delivery:
  fixes chunkText sendOk replies target mode limit calls opts discord chunkLimit
  defines "new \<equiv> newCalls calls (deliverReplies chunkText sendOk replies target mode limit calls)"
  shows "(o_replyToMode opts = None \<and> Option.bind discord dc_replyToMode = None \<longrightarrow>
            replyToMode (resolveSettings opts discord chunkLimit) = ModeOff)
       \<and> (mode = ModeOff \<longrightarrow> (\<forall>c\<in>set new. \<not> threaded c))
       \<and> (mode = ModeAll \<and> (\<forall>p\<in>set replies. hasReplyToId p) \<longrightarrow> (\<forall>c\<in>set new. threaded c))
       \<and> (mode = ModeAll \<longrightarrow>
            prefix (map ob_replyTo new)
              (map referenceOf (concat (map (partsOf chunkText (min limit 2000)) replies))))
       \<and> (mode = ModeFirst \<longrightarrow> length (filter threaded new) \<le> 1)
       \<and> (mode = ModeFirst \<and> (\<forall>p\<in>set replies. hasReplyToId p) \<longrightarrow> onlyFirstThreaded new)"
proof -
  let ?plan = "planCalls mode target False
                 (concat (map (partsOf chunkText (min limit 2000)) replies))"
  obtain k where new: "new = take k ?plan"
    unfolding new_def using newCalls_prefix by blast
  have off: "mode = ModeOff \<longrightarrow> (\<forall>c\<in>set new. \<not> threaded c)"
    unfolding new using planCalls_off by (blast dest: in_set_takeD)
  have all: "mode = ModeAll \<and> (\<forall>p\<in>set replies. hasReplyToId p) \<longrightarrow> (\<forall>c\<in>set new. threaded c)"
    unfolding new using planCalls_all parts_nonblank by (blast dest: in_set_takeD)
  have refs: "mode = ModeAll \<longrightarrow>
            prefix (map ob_replyTo new)
              (map referenceOf (concat (map (partsOf chunkText (min limit 2000)) replies)))"
  proof
    assume "mode = ModeAll"
    then have "map ob_replyTo ?plan
                 = map referenceOf (concat (map (partsOf chunkText (min limit 2000)) replies))"
      by (simp add: planCalls_all_refs)
    then have "map ob_replyTo new
                 = take k (map referenceOf
                             (concat (map (partsOf chunkText (min limit 2000)) replies)))"
      unfolding new by (metis take_map)
    then show "prefix (map ob_replyTo new)
              (map referenceOf (concat (map (partsOf chunkText (min limit 2000)) replies)))"
      by (simp only: take_is_prefix)
  qed
  have count: "mode = ModeFirst \<longrightarrow> length (filter threaded new) \<le> 1"
  proof
    assume "mode = ModeFirst"
    then have "length (filter threaded ?plan) \<le> 1"
      using planCalls_first_count [of target False] by simp
    then show "length (filter threaded new) \<le> 1"
      unfolding new using filter_take_length [of threaded k ?plan] by linarith
  qed
  have first: "mode = ModeFirst \<and> (\<forall>p\<in>set replies. hasReplyToId p) \<longrightarrow> onlyFirstThreaded new"
    unfolding new using planCalls_first_only parts_nonblank onlyFirstThreaded_take by blast
  have unset: "o_replyToMode opts = None \<and> Option.bind discord dc_replyToMode = None \<longrightarrow>
            replyToMode (resolveSettings opts discord chunkLimit) = ModeOff"
    by (simp add: resolveSettings_def orDefault_def orElse_def)
  from unset off all refs count first show ?thesis by blast
qed

lemma example_all_have_ids: "\<forall>p\<in>set threePayloads. hasReplyToId p"
  by (simp add: hasReplyToId_def ex_defs str_defs)

lemma example_first_mode:
  "map ob_replyTo
     (newCalls []
        (deliverReplies (\<lambda>body limit. [body]) (\<lambda>n. True) threePayloads
           ''channel:c1'' ModeFirst 2000 []))
   = [Some ''m1'', None, None, None, None, None]"
  by (simp add: deliver_defs ex_defs str_defs Let_def)

text \<open>Three payloads of two media each: six calls, and in mode \<open>first\<close> the first one
  alone carries the reference; in mode \<open>off\<close> none does, in mode \<open>all\<close> all do.\<close>

theorem reply_threading_per_delivery_witness:
  "list_all hasReplyToId threePayloads
   \<and> map ob_replyTo
       (newCalls []
          (deliverReplies (\<lambda>body limit. [body]) (\<lambda>n. True) threePayloads
             ''channel:c1'' ModeFirst 2000 []))
     = [Some ''m1'', None, None, None, None, None]
   \<and> onlyFirstThreaded
       (newCalls []
          (deliverReplies (\<lambda>body limit. [body]) (\<lambda>n. True) threePayloads
             ''channel:c1'' ModeFirst 2000 []))
   \<and> list_all (\<lambda>c. \<not> threaded c)
       (newCalls []
          (deliverReplies (\<lambda>body limit. [body]) (\<lambda>n. True) threePayloads
             ''channel:c1'' ModeOff 2000 []))
   \<and> list_all threaded
       (newCalls []
          (deliverReplies (\<lambda>body limit. [body]) (\<lambda>n. True) threePayloads
             ''channel:c1'' ModeAll 2000 []))"
proof -
  note ids = example_all_have_ids
  have first: "onlyFirstThreaded
       (newCalls []
          (deliverReplies (\<lambda>body limit. [body]) (\<lambda>n. True) threePayloads
             ''channel:c1'' ModeFirst 2000 []))"
    using ids
          reply_threading_per_delivery
            [where mode = ModeFirst and chunkText = "\<lambda>body limit. [body]"
               and sendOk = "\<lambda>n. True" and replies = threePayloads
               and target = "''channel:c1''" and limit = 2000 and calls = "[]"]
    by blast
  have off: "\<forall>c\<in>set (newCalls []
                 (deliverReplies (\<lambda>body limit. [body]) (\<lambda>n. True) threePayloads
                    ''channel:c1'' ModeOff 2000 [])). \<not> threaded c"
    using reply_threading_per_delivery
            [where mode = ModeOff and chunkText = "\<lambda>body limit. [body]"
               and sendOk = "\<lambda>n. True" and replies = threePayloads
               and target = "''channel:c1''" and limit = 2000 and calls = "[]"]
    by blast
  have all: "\<forall>c\<in>set (newCalls []
                 (deliverReplies (\<lambda>body limit. [body]) (\<lambda>n. True) threePayloads
                    ''channel:c1'' ModeAll 2000 [])). threaded c"
    using ids
          reply_threading_per_delivery
            [where mode = ModeAll and chunkText = "\<lambda>body limit. [body]"
               and sendOk = "\<lambda>n. True" and replies = threePayloads
               and target = "''channel:c1''" and limit = 2000 and calls = "[]"]
    by blast
  from ids first off all example_first_mode show ?thesis
    by (simp add: list_all_iff)
qed

text \<open>
  Claim C1 as stated fails on two counts. The mode that applies when nothing is
  configured is \<open>off\<close>, not \<open>first\<close>. And the flag is not kept for the turn: in mode \<open>first\<close>
  a turn whose generator streams one block reply and returns one final reply, both with
  the \<open>replyToId\<close> of the inbound message, makes two calls, and the second carries the
  reference too.
\<close>

theorem reply_threading_not_per_turn:
  "replyToMode (resolveSettings noOpts None 2000) = ModeOff
   \<and> map ob_replyTo
       (hr_calls (handleMessageCreate (defaultSettings\<lparr>replyToMode := ModeFirst\<rparr>)
                    streamingWorld Map.empty exampleGuildMessage))
     = [Some ''m1'', Some ''m1'']"
proof -
  have "replyToMode (resolveSettings noOpts None 2000) = ModeOff"
    by (simp add: ex_defs orDefault_def orElse_def)
  moreover have "map ob_replyTo
       (hr_calls (handleMessageCreate (defaultSettings\<lparr>replyToMode := ModeFirst\<rparr>)
                    streamingWorld Map.empty exampleGuildMessage))
     = [Some ''m1'', Some ''m1'']"
    unfolding streamingWorld_def example_turn
    by (simp add: generateAndDeliver_def deliver_defs ex_defs str_defs Let_def ctx_To_of
          msg_defs)
  ultimately show ?thesis by simp
qed

subsection \<open>Delivery of media\<close>

lemma expectedSends_media:
  "mediaListOf payload = u # us
     \<Longrightarrow> expectedSends chunkText limit payload
           = (textOf payload, Some u) # map (\<lambda>v. ([], Some v)) us"
  by (simp add: expectedSends_def)

lemma sends_when_all_ok:
  assumes "\<forall>n. sendOk n"
  shows "map (\<lambda>c. (ob_text c, ob_mediaUrl c))
           (newCalls calls (deliverReplies chunkText sendOk replies target mode limit calls))
         = concat (map (expectedSends chunkText (min limit 2000)) replies)"
  by (simp add: newCalls_all_ok [OF assms] planCalls_projection partsOf_projection)

lemma sends_prefix:
  "\<exists>k. map (\<lambda>c. (ob_text c, ob_mediaUrl c))
          (newCalls calls (deliverReplies chunkText sendOk replies target mode limit calls))
        = take k (concat (map (expectedSends chunkText (min limit 2000)) replies))"
proof -
  obtain k where
    "newCalls calls (deliverReplies chunkText sendOk replies target mode limit calls)
       = take k (planCalls mode target False
                   (concat (map (partsOf chunkText (min limit 2000)) replies)))"
    using newCalls_prefix by blast
  then have "map (\<lambda>c. (ob_text c, ob_mediaUrl c))
          (newCalls calls (deliverReplies chunkText sendOk replies target mode limit calls))
        = take k (concat (map (expectedSends chunkText (min limit 2000)) replies))"
    by (simp add: take_map [symmetric] planCalls_projection partsOf_projection
             del: take_map)
  then show ?thesis by blast
qed

lemma scenario_sends:
  assumes "\<forall>n. sendOk n" and "chunkText ''part1'' (min limit 2000) = [''part1'']"
  shows "newCalls calls
           (deliverReplies chunkText sendOk [part1Payload, imagePayload] target mode limit calls)
         = [\<lparr>ob_target = target, ob_text = ''part1'', ob_mediaUrl = None, ob_replyTo = None\<rparr>,
            \<lparr>ob_target = target, ob_text = [], ob_mediaUrl = Some ''http://x/img.jpg'',
              ob_replyTo = None\<rparr>]"
  using assms(2)
  by (simp add: newCalls_all_ok [OF assms(1)] partsOf_def expectedSends_def mediaListOf_def
        textOf_def part1Payload_def imagePayload_def resolveDiscordReplyTarget_def Let_def)

text \<open>
  Claim C9. When no send throws, \<open>deliverReplies\<close> returns, and the texts and media URLs
  of its calls are, payload by payload and in order, the sends the specification
  describes: for a payload with media one call per media URL, the first with the text of
  the payload as caption and the others with an empty caption. When a send throws, the
  calls made are a prefix of that list, so no text goes out twice. The payloads
  \<open>[{text: "part1"}, {text: "", mediaUrl: "http://x/img.jpg"}]\<close> lead to exactly two
  calls, the text \<open>part1\<close> and then the image with an empty caption, given that
  \<open>chunkText\<close> leaves the short text \<open>part1\<close> in one chunk.
\<close>

theorem media_delivery:
  "((\<forall>n. sendOk n) \<longrightarrow>
      snd (deliverReplies chunkText sendOk replies target mode limit calls)
      \<and> map (\<lambda>c. (ob_text c, ob_mediaUrl c))
          (newCalls calls (deliverReplies chunkText sendOk replies target mode limit calls))
        = concat (map (expectedSends chunkText (min limit 2000)) replies))
   \<and> (\<forall>payload u us. mediaListOf payload = u # us \<longrightarrow>
        expectedSends chunkText (min limit 2000) payload
          = (textOf payload, Some u) # map (\<lambda>v. ([], Some v)) us)
   \<and> (\<exists>k. map (\<lambda>c. (ob_text c, ob_mediaUrl c))
            (newCalls calls (deliverReplies chunkText sendOk replies target mode limit calls))
          = take k (concat (map (expectedSends chunkText (min limit 2000)) replies)))
   \<and> ((\<forall>n. sendOk n) \<and> chunkText ''part1'' (min limit 2000) = [''part1''] \<longrightarrow>
        newCalls calls
          (deliverReplies chunkText sendOk [part1Payload, imagePayload] target mode limit calls)
        = [\<lparr>ob_target = target, ob_text = ''part1'', ob_mediaUrl = None, ob_replyTo = None\<rparr>,
           \<lparr>ob_target = target, ob_text = [], ob_mediaUrl = Some ''http://x/img.jpg'',
             ob_replyTo = None\<rparr>])"
  using sends_when_all_ok [of sendOk calls chunkText replies target mode limit]
        deliverReplies_all_ok [of sendOk chunkText replies target mode limit calls]
        expectedSends_media [of _ _ _ chunkText "min limit 2000"]
        sends_prefix [of calls chunkText sendOk replies target mode limit]
        scenario_sends [of sendOk chunkText limit calls target mode]
  by simp

text \<open>A payload with the text \<open>one\<close> and two media, and the scenario, with a chunker that
  leaves every text whole and sends that never throw.\<close>

theorem media_delivery_witness:
  "(\<forall>n. (\<lambda>n. True) n) \<and> (\<lambda>body limit. [body]) ''part1'' (min 2000 2000) = [''part1'']
   \<and> mediaListOf (mediaPayload ''one'' [''u1'', ''u2''] None) = ''u1'' # [''u2'']
   \<and> map (\<lambda>c. (ob_text c, ob_mediaUrl c))
       (newCalls []
          (deliverReplies (\<lambda>body limit. [body]) (\<lambda>n. True)
             [mediaPayload ''one'' [''u1'', ''u2''] None] ''channel:c1'' ModeOff 2000 []))
     = [(''one'', Some ''u1''), ([], Some ''u2'')]
   \<and> newCalls []
       (deliverReplies (\<lambda>body limit. [body]) (\<lambda>n. True) [part1Payload, imagePayload]
          ''channel:c1'' ModeOff 2000 [])
     = [\<lparr>ob_target = ''channel:c1'', ob_text = ''part1'', ob_mediaUrl = None,
          ob_replyTo = None\<rparr>,
        \<lparr>ob_target = ''channel:c1'', ob_text = [], ob_mediaUrl = Some ''http://x/img.jpg'',
          ob_replyTo = None\<rparr>]"
  using media_delivery
          [where sendOk = "\<lambda>n. True" and chunkText = "\<lambda>body limit. [body]"
             and replies = "[mediaPayload ''one'' [''u1'', ''u2''] None]"
             and target = "''channel:c1''" and mode = ModeOff and limit = 2000 and calls = "[]"]
  by (simp add: expectedSends_def mediaListOf_def textOf_def mediaPayload_def)

subsection \<open>The history buffer\<close>

lemma shiftWhileOver_drop: "shiftWhileOver limit history = drop (length history - limit) history"
proof (induction limit history rule: shiftWhileOver.induct)
  case (1 limit history)
  show ?case
  proof (cases "length history > limit")
    case True
    then have ne: "history \<noteq> []" by auto
    have "shiftWhileOver limit history = shiftWhileOver limit (tl history)"
      using True by (subst shiftWhileOver.simps) simp
    also have "\<dots> = drop (length (tl history) - limit) (tl history)"
      using "1.IH" [OF True] .
    also have "\<dots> = drop (length history - limit) history"
      using True ne by (cases history) (simp_all add: Suc_diff_le)
    finally show ?thesis .
  next
    case False
    then show ?thesis by (subst shiftWhileOver.simps) simp
  qed
qed

lemma appendHistory_same:
  "isGuildMessage m \<Longrightarrow> historyLimit cfg > 0 \<Longrightarrow> baseText m \<noteq> []
     \<Longrightarrow> historyOf (appendHistory cfg h m a) (channelId m)
           = drop (length (historyOf h (channelId m)) + 1 - historyLimit cfg)
               (historyOf h (channelId m) @ [historyEntryOf m a])"
  by (simp add: appendHistory_def Let_def shiftWhileOver_drop historyOf_def)

lemma appendHistory_other:
  "chanId \<noteq> channelId m \<Longrightarrow> appendHistory cfg h m a chanId = h chanId"
  by (simp add: appendHistory_def Let_def)

lemma appendHistory_disabled: "historyLimit cfg = 0 \<Longrightarrow> appendHistory cfg h m a = h"
  by (simp add: appendHistory_def)

lemma appendHistory_bounded: "bounded cfg h \<Longrightarrow> bounded cfg (appendHistory cfg h m a)"
  unfolding bounded_def
proof
  fix chanId
  assume b: "\<forall>chanId. length (historyOf h chanId) \<le> historyLimit cfg"
  show "length (historyOf (appendHistory cfg h m a) chanId) \<le> historyLimit cfg"
  proof (cases "isGuildMessage m \<and> historyLimit cfg > 0 \<and> baseText m \<noteq> []")
    case True
    show ?thesis
    proof (cases "chanId = channelId m")
      case same: True
      with True show ?thesis by (simp add: appendHistory_same) arith
    next
      case False
      with b show ?thesis by (simp add: historyOf_def appendHistory_other)
    qed
  next
    case False
    then have "appendHistory cfg h m a = h" by (auto simp: appendHistory_def)
    with b show ?thesis by simp
  qed
qed

lemma cleared_shape:
  "clearedHistories cfg h m sc did = h
   \<or> (clearedHistories cfg h m sc did = h(channelId m \<mapsto> []) \<and> historyLimit cfg > 0)"
  by (simp add: clearedHistories_def)

lemma generateAndDeliver_histories:
  "hr_histories (generateAndDeliver cfg w h m ctx route) = h
   \<or> (hr_histories (generateAndDeliver cfg w h m ctx route) = h(channelId m \<mapsto> [])
      \<and> historyLimit cfg > 0)"
  using cleared_shape [of cfg h m]
  by (auto simp: generateAndDeliver_def Let_def split: Generation.splits)

lemma runTurn_histories:
  "hr_histories (runTurn cfg w h m a) = h
   \<or> (hr_histories (runTurn cfg w h m a) = h(channelId m \<mapsto> []) \<and> historyLimit cfg > 0)"
  using generateAndDeliver_histories [of cfg w h m]
  by (auto simp: runTurn_def Let_def finish_def split: option.splits sum.splits)

lemma handle_histories:
  "hr_histories (handleMessageCreate cfg w h m) = h
   \<or> (\<exists>a. author m = Some a
         \<and> (hr_histories (handleMessageCreate cfg w h m) = appendHistory cfg h m a
            \<or> (hr_histories (handleMessageCreate cfg w h m)
                  = (appendHistory cfg h m a)(channelId m \<mapsto> [])
               \<and> historyLimit cfg > 0)))"
proof (cases "gateBeforeHistory cfg m")
  case (Some reason)
  then show ?thesis by (simp add: handle_dropped_early finish_def)
next
  case None
  then obtain a where a: "author m = Some a" using gate_has_author by blast
  show ?thesis
  proof (cases "gateAfterHistory cfg w m a")
    case (Some reason)
    with None a show ?thesis by (simp add: handle_dropped_late finish_def)
  next
    case noDrop: None
    with None a runTurn_histories [of cfg w "appendHistory cfg h m a" m a]
    show ?thesis by (auto simp: handle_admitted)
  qed
qed

lemma clear_bounded: "bounded cfg h \<Longrightarrow> bounded cfg (h(chanId \<mapsto> []))"
  by (simp add: bounded_def historyOf_def)

lemma handle_bounded:
  "bounded cfg h \<Longrightarrow> bounded cfg (hr_histories (handleMessageCreate cfg w h m))"
  using handle_histories [of cfg w h m] appendHistory_bounded [of cfg h m] clear_bounded
  by metis

lemma handle_disabled:
  "historyLimit cfg = 0 \<Longrightarrow> hr_histories (handleMessageCreate cfg w h m) = h"
  using handle_histories [of cfg w h m] by (auto simp: appendHistory_disabled)

lemma runEvents_bounded: "bounded cfg h \<Longrightarrow> bounded cfg (runEvents cfg h evs)"
  by (induction evs arbitrary: h) (simp_all add: handle_bounded)

lemma runEvents_disabled: "historyLimit cfg = 0 \<Longrightarrow> runEvents cfg h evs = h"
  by (induction evs arbitrary: h) (simp_all add: handle_disabled)

lemma empty_bounded: "bounded cfg Map.empty"
  by (simp add: bounded_def historyOf_def)


text \<open>
  Claim C2. From the empty history map, after any sequence of handler runs, the history of
  every channel has at most \<open>historyLimit\<close> entries, and nothing at all is stored when
  \<open>historyLimit\<close> is 0. An append puts the new entry last and keeps, of the old entries
  and the new one, the last \<open>historyLimit\<close> in their order: the oldest entries are the ones
  evicted. The histories of the other channels are untouched.
\<close>

theorem history_bounded_fifo:
  "(\<forall>chanId. length (historyOf (runEvents cfg Map.empty evs) chanId) \<le> historyLimit cfg)
   \<and> (historyLimit cfg = 0 \<longrightarrow> runEvents cfg Map.empty evs = Map.empty)
   \<and> (isGuildMessage m \<and> historyLimit cfg > 0 \<and> baseText m \<noteq> [] \<longrightarrow>
        historyOf (appendHistory cfg h m a) (channelId m)
          = drop (length (historyOf h (channelId m)) + 1 - historyLimit cfg)
              (historyOf h (channelId m) @ [historyEntryOf m a]))
   \<and> (\<forall>chanId. chanId \<noteq> channelId m \<longrightarrow> appendHistory cfg h m a chanId = h chanId)"
  using runEvents_bounded [OF empty_bounded, of cfg evs] runEvents_disabled [of cfg Map.empty evs]
        appendHistory_same [of m cfg h a] appendHistory_other [of _ m cfg h a]
  by (simp add: bounded_def)

lemma example_text_bearing:
  "isGuildMessage exampleGuildMessage \<and> baseText exampleGuildMessage \<noteq> []
   \<and> channelId exampleGuildMessage = ''c1''"
  by (simp add: msg_defs ex_defs str_defs)

lemma example_append:
  "historyOf (appendHistory (defaultSettings\<lparr>historyLimit := 2\<rparr>)
                (Map.empty(''c1'' \<mapsto> [firstEntry, secondEntry])) exampleGuildMessage
                exampleAuthor) ''c1''
   = [secondEntry, historyEntryOf exampleGuildMessage exampleAuthor]"
  using example_text_bearing
        appendHistory_same
          [of exampleGuildMessage "defaultSettings\<lparr>historyLimit := 2\<rparr>"
              "Map.empty(''c1'' \<mapsto> [firstEntry, secondEntry])" exampleAuthor]
  by (simp add: historyOf_def)

theorem history_bounded_fifo_witness:
  "isGuildMessage exampleGuildMessage \<and> historyLimit (defaultSettings\<lparr>historyLimit := 2\<rparr>) > 0
   \<and> baseText exampleGuildMessage \<noteq> []
   \<and> historyOf (appendHistory (defaultSettings\<lparr>historyLimit := 2\<rparr>)
                  (Map.empty(''c1'' \<mapsto> [firstEntry, secondEntry])) exampleGuildMessage
                  exampleAuthor) ''c1''
     = drop (length (historyOf (Map.empty(''c1'' \<mapsto> [firstEntry, secondEntry])) ''c1'') + 1 - 2)
         (historyOf (Map.empty(''c1'' \<mapsto> [firstEntry, secondEntry])) ''c1''
            @ [historyEntryOf exampleGuildMessage exampleAuthor])
   \<and> historyOf (appendHistory (defaultSettings\<lparr>historyLimit := 2\<rparr>)
                  (Map.empty(''c1'' \<mapsto> [firstEntry, secondEntry])) exampleGuildMessage
                  exampleAuthor) ''c1''
     = [secondEntry, historyEntryOf exampleGuildMessage exampleAuthor]
   \<and> length (historyOf
               (runEvents (defaultSettings\<lparr>historyLimit := 2\<rparr>) Map.empty
                  [(exampleWorld, exampleGuildMessage), (exampleWorld, exampleGuildMessage),
                   (exampleWorld, exampleGuildMessage)]) ''c1'') \<le> 2
   \<and> historyLimit (defaultSettings\<lparr>historyLimit := 0\<rparr>) = 0
   \<and> runEvents (defaultSettings\<lparr>historyLimit := 0\<rparr>) Map.empty
        [(exampleWorld, exampleGuildMessage)] = Map.empty"
  using example_text_bearing example_append
        history_bounded_fifo
          [where cfg = "defaultSettings\<lparr>historyLimit := 2\<rparr>" and m = exampleGuildMessage
             and a = exampleAuthor and h = "Map.empty(''c1'' \<mapsto> [firstEntry, secondEntry])"
             and evs = "[(exampleWorld, exampleGuildMessage), (exampleWorld, exampleGuildMessage),
                         (exampleWorld, exampleGuildMessage)]"]
        history_bounded_fifo
          [where cfg = "defaultSettings\<lparr>historyLimit := 0\<rparr>" and m = exampleGuildMessage
             and a = exampleAuthor and h = Map.empty
             and evs = "[(exampleWorld, exampleGuildMessage)]"]
  by (simp add: historyOf_def)

subsection \<open>Direct messages and \<open>allowFrom\<close>\<close>

lemma appendHistory_not_guild: "\<not> isGuildMessage m \<Longrightarrow> appendHistory cfg h m a = h"
  by (simp add: appendHistory_def)

lemma finish_fields:
  "hr_histories (finish h outcome) = h" "hr_calls (finish h outcome) = []"
  "hr_generated (finish h outcome) = None" "hr_systemEvents (finish h outcome) = []"
  "hr_lastRoute (finish h outcome) = None" "hr_outcome (finish h outcome) = outcome"
  by (simp_all add: finish_def)


text \<open>
  Claim C8. A direct message (channel type \<open>DM\<close>, no guild) whose sender matches no entry
  of a configured, non-empty \<open>allowFrom\<close> list, also when the list builds to \<open>null\<close>, is
  dropped: the handler returns without calling \<open>sendMessageDiscord\<close> or
  \<open>getReplyFromConfig\<close>, and the history map, the system events and the session route
  are as before.
\<close>

theorem unlisted_direct_sender_dropped:
  assumes "isDirectMessage m" and "\<not> isGuildMessage m" and "author m = Some a"
    and "allowFrom cfg = Some allowed" and "allowed \<noteq> []"
    and "\<not> (\<exists>allowList. normalizeDiscordAllowList (Some allowed) [''discord:'', ''user:'']
                          = Some allowList
                       \<and> allowListMatches allowList (senderCandidate a))"
  shows "(\<exists>reason. hr_outcome (handleMessageCreate cfg w h m) = Dropped reason)
       \<and> hr_calls (handleMessageCreate cfg w h m) = []
       \<and> hr_histories (handleMessageCreate cfg w h m) = h
       \<and> hr_generated (handleMessageCreate cfg w h m) = None
       \<and> hr_systemEvents (handleMessageCreate cfg w h m) = []
       \<and> hr_lastRoute (handleMessageCreate cfg w h m) = None"
proof (cases "gateBeforeHistory cfg m")
  case (Some reason)
  then show ?thesis by (simp add: handle_dropped_early finish_fields)
next
  case None
  have blocked: "dmSenderBlocked cfg m a"
    using assms by (auto simp: dmSenderBlocked_def split: option.splits)
  have "gateAfterHistory cfg w m a = Some SenderNotAllowed"
    using assms(2) blocked
    by (simp add: gateAfterHistory_def mentionGateDrops_def guildUserBlocked_def)
  with None assms(2,3) show ?thesis
    by (simp add: handle_dropped_late finish_fields appendHistory_not_guild)
qed

lemma restricted_list:
  "normalizeDiscordAllowList (Some [RawStr ''12345'']) [''discord:'', ''user:'']
     = Some \<lparr>allowAll = False, ids = {''12345''}, names = {}\<rparr>"
  by (simp add: normalizeDiscordAllowList_def addRawEntry_def mentionMatch_def str_defs)

lemma alice_not_listed:
  "\<not> allowListMatches \<lparr>allowAll = False, ids = {''12345''}, names = {}\<rparr>
       (senderCandidate exampleAuthor)"
  by (simp add: allowListMatches_def senderCandidate_def exampleAuthor_def Let_def)

theorem unlisted_direct_sender_dropped_witness:
  "isDirectMessage exampleDirectMessage \<and> \<not> isGuildMessage exampleDirectMessage
   \<and> author exampleDirectMessage = Some exampleAuthor
   \<and> allowFrom restrictedSettings = Some [RawStr ''12345''] \<and> [RawStr ''12345''] \<noteq> []
   \<and> \<not> (\<exists>allowList. normalizeDiscordAllowList (Some [RawStr ''12345''])
                         [''discord:'', ''user:''] = Some allowList
                      \<and> allowListMatches allowList (senderCandidate exampleAuthor))
   \<and> (\<exists>reason. hr_outcome (handleMessageCreate restrictedSettings answeringWorld
                              (Map.empty(''c1'' \<mapsto> [firstEntry])) exampleDirectMessage)
                  = Dropped reason)
   \<and> hr_calls (handleMessageCreate restrictedSettings answeringWorld
                 (Map.empty(''c1'' \<mapsto> [firstEntry])) exampleDirectMessage) = []
   \<and> hr_histories (handleMessageCreate restrictedSettings answeringWorld
                     (Map.empty(''c1'' \<mapsto> [firstEntry])) exampleDirectMessage)
       = Map.empty(''c1'' \<mapsto> [firstEntry])
   \<and> hr_generated (handleMessageCreate restrictedSettings answeringWorld
                     (Map.empty(''c1'' \<mapsto> [firstEntry])) exampleDirectMessage) = None"
proof -
  have dm: "isDirectMessage exampleDirectMessage" "\<not> isGuildMessage exampleDirectMessage"
    "author exampleDirectMessage = Some exampleAuthor"
    by (simp_all add: msg_defs ex_defs)
  have af: "allowFrom restrictedSettings = Some [RawStr ''12345'']"
    by (simp add: ex_defs)
  have unlisted: "\<not> (\<exists>allowList. normalizeDiscordAllowList (Some [RawStr ''12345''])
                         [''discord:'', ''user:''] = Some allowList
                      \<and> allowListMatches allowList (senderCandidate exampleAuthor))"
    using alice_not_listed by (simp add: restricted_list)
  show ?thesis
    using dm af unlisted
          unlisted_direct_sender_dropped
            [OF dm af _ unlisted, of answeringWorld "Map.empty(''c1'' \<mapsto> [firstEntry])"]
    by simp
qed

subsection \<open>The mention gate\<close>

text \<open>Nothing the handler looks at besides \<open>wasMentioned\<close> depends on the mentions of the
  message.\<close>

lemma mention_free_basic:
  "isGroupDm (m\<lparr>mentions := ms\<rparr>) = isGroupDm m"
  "isDirectMessage (m\<lparr>mentions := ms\<rparr>) = isDirectMessage m"
  "isGuildMessage (m\<lparr>mentions := ms\<rparr>) = isGuildMessage m"
  by (simp_all add: isGroupDm_def isDirectMessage_def isGuildMessage_def)








lemma mention_free_dm:
  "dmSenderBlocked cfg (m\<lparr>mentions := ms\<rparr>) a = dmSenderBlocked cfg m a"
  by (simp add: dmSenderBlocked_def mention_free_basic)







lemma generated_ctx: "hr_generated (generateAndDeliver cfg w h m ctx route) = Some ctx"
  by (simp add: generateAndDeliver_def Let_def split: Generation.splits)






lemma unmentioned_facts:
  "isGuildMessage unmentionedMessage \<and> resolvedRequireMention defaultSettings unmentionedMessage
   \<and> botIdKnown answeringWorld \<and> \<not> wasMentioned answeringWorld unmentionedMessage
   \<and> \<not> wasMentioned anonymousWorld unmentionedMessage
   \<and> w_botId answeringWorld = Some ''bot'' \<and> \<not> isDirectMessage unmentionedMessage
   \<and> author unmentionedMessage = Some exampleAuthor
   \<and> unmentionedMessage\<lparr>mentions := ''bot'' # mentions unmentionedMessage\<rparr> = exampleGuildMessage"
  by (simp add: msg_defs ex_defs)

lemma unmentioned_gateBefore: "gateBeforeHistory defaultSettings unmentionedMessage = None"
  by (simp add: gateBeforeHistory_def msg_defs ex_defs)



lemma turn_reaches_generation:
  "gateBeforeHistory cfg m = None \<Longrightarrow> author m = Some a
     \<Longrightarrow> gateAfterHistory cfg w m a = None \<Longrightarrow> resolveDiscordSystemEvent m = None
     \<Longrightarrow> resolveMedia w m (mediaMaxBytes cfg) = Inr media \<Longrightarrow> messageTextOf m media \<noteq> []
     \<Longrightarrow> (isDirectMessage m \<longrightarrow> w_updateLastRouteOk w)
     \<Longrightarrow> handleMessageCreate cfg w h m
           = generateAndDeliver cfg w (appendHistory cfg h m a) m
               (ctxPayloadOf cfg w (appendHistory cfg h m a) m a media (messageTextOf m media))
               (if isDirectMessage m then Some (''user:'' @ a_id a) else None)"
  by (simp add: handle_admitted runTurn_generates)










text \<open>The gates on an inherited member. For the guild named \<open>constructor\<close> the lookup
  \<open>guildEntries[guildSlug]\<close> finds the member of \<open>Object.prototype\<close> and the wildcard
  entry is not reached: a mention is required, and no list of users applies.\<close>

lemma constructor_guildInfo:
  "guildInfoOf wildcardSettings (constructorGuildMessage\<lparr>mentions := ms\<rparr>)
     = Some \<lparr>ge_id = Some ''1'', ge_slug = Some ''constructor'', ge_requireMention = None,
              ge_reactionNotifications = None, ge_users = None, ge_channels = None\<rparr>"
  by (simp add: guildInfoOf_def isGuildMessage_def constructorGuildMessage_def
        wildcardSettings_def exampleGuildMessage_def inherited_guild_member)

lemma constructor_kind:
  "isGuildMessage (constructorGuildMessage\<lparr>mentions := ms\<rparr>)
   \<and> \<not> isDirectMessage (constructorGuildMessage\<lparr>mentions := ms\<rparr>)
   \<and> \<not> isGroupDm (constructorGuildMessage\<lparr>mentions := ms\<rparr>)
   \<and> author (constructorGuildMessage\<lparr>mentions := ms\<rparr>) = Some exampleAuthor
   \<and> msgType (constructorGuildMessage\<lparr>mentions := ms\<rparr>) = Default
   \<and> \<not> a_bot exampleAuthor
   \<and> guildEntries wildcardSettings \<noteq> None"
  by (simp add: isGuildMessage_def isDirectMessage_def isGroupDm_def constructorGuildMessage_def
        exampleGuildMessage_def exampleAuthor_def wildcardSettings_def)

lemma constructor_channelConfig:
  "channelConfigOf wildcardSettings (constructorGuildMessage\<lparr>mentions := ms\<rparr>)
     = Some \<lparr>cc_allowed = True, cc_requireMention = None\<rparr>"
  using constructor_kind [of ms]
  by (simp add: channelConfigOf_def constructor_guildInfo resolveDiscordChannelConfig_def)

lemma constructor_gates:
  "gateBeforeHistory wildcardSettings (constructorGuildMessage\<lparr>mentions := ms\<rparr>) = None
   \<and> resolvedRequireMention wildcardSettings (constructorGuildMessage\<lparr>mentions := ms\<rparr>)
   \<and> \<not> guildUserBlocked wildcardSettings (constructorGuildMessage\<lparr>mentions := ms\<rparr>) exampleAuthor"
  using constructor_kind [of ms]
  by (simp add: gateBeforeHistory_def resolvedRequireMention_def guildUserBlocked_def
        constructor_channelConfig constructor_guildInfo orDefault_def orElse_def)

lemma inherited_guild_turn:
  "hr_outcome (handleMessageCreate wildcardSettings answeringWorld Map.empty
                 constructorGuildMessage) = Delivered
   \<and> hr_outcome (handleMessageCreate wildcardSettings answeringWorld Map.empty
                   (constructorGuildMessage\<lparr>mentions := []\<rparr>)) = Dropped NoMention"
proof -
  have au: "author (constructorGuildMessage\<lparr>mentions := ms\<rparr>) = Some exampleAuthor" for ms
    by (simp add: constructorGuildMessage_def exampleGuildMessage_def)
  have guildMsg: "isGuildMessage (constructorGuildMessage\<lparr>mentions := ms\<rparr>)
      \<and> \<not> isDirectMessage (constructorGuildMessage\<lparr>mentions := ms\<rparr>)" for ms
    by (simp add: isGuildMessage_def isDirectMessage_def constructorGuildMessage_def
          exampleGuildMessage_def)
  have same: "constructorGuildMessage\<lparr>mentions := [''bot'']\<rparr> = constructorGuildMessage"
    by (simp add: constructorGuildMessage_def exampleGuildMessage_def)
  have after1: "gateAfterHistory wildcardSettings answeringWorld
                  (constructorGuildMessage\<lparr>mentions := [''bot'']\<rparr>) exampleAuthor = None"
    using constructor_gates [of "[''bot'']"] guildMsg [of "[''bot'']"]
    by (simp add: gateAfterHistory_def mentionGateDrops_def dmSenderBlocked_def
          wasMentioned_def answeringWorld_def exampleWorld_def)
  have after2: "gateAfterHistory wildcardSettings answeringWorld
                  (constructorGuildMessage\<lparr>mentions := []\<rparr>) exampleAuthor = Some NoMention"
    using constructor_gates [of "[]"] guildMsg [of "[]"]
    by (simp add: gateAfterHistory_def mentionGateDrops_def botIdKnown_def
          wasMentioned_def answeringWorld_def exampleWorld_def)
  have sys: "resolveDiscordSystemEvent (constructorGuildMessage\<lparr>mentions := [''bot'']\<rparr>) = None"
    by (simp add: resolveDiscordSystemEvent_def systemAction_def constructorGuildMessage_def
          exampleGuildMessage_def)
  have med: "resolveMedia answeringWorld (constructorGuildMessage\<lparr>mentions := [''bot'']\<rparr>)
               (mediaMaxBytes wildcardSettings) = Inr None"
    by (simp add: resolveMedia_def constructorGuildMessage_def exampleGuildMessage_def)
  have mtext: "messageTextOf (constructorGuildMessage\<lparr>mentions := [''bot'']\<rparr>) None = ''hello''"
    by (simp add: messageTextOf_def constructorGuildMessage_def exampleGuildMessage_def str_defs)
  have before: "gateBeforeHistory wildcardSettings (constructorGuildMessage\<lparr>mentions := ms\<rparr>) = None" for ms
    using constructor_gates [of ms] by simp
  have "hr_outcome (handleMessageCreate wildcardSettings answeringWorld Map.empty
                 (constructorGuildMessage\<lparr>mentions := [''bot'']\<rparr>)) = Delivered"
    using turn_reaches_generation [OF before au after1 sys med, of Map.empty] mtext guildMsg [of "[''bot'']"]
    by (simp add: generateAndDeliver_def deliver_defs Let_def ctx_To_of answeringWorld_def
          textPayload_def exampleWorld_def wildcardSettings_def defaultSettings_def
          resolveSettings_def noOpts_def orDefault_def orElse_def)
  moreover have "hr_outcome (handleMessageCreate wildcardSettings answeringWorld Map.empty
                   (constructorGuildMessage\<lparr>mentions := []\<rparr>)) = Dropped NoMention"
    by (simp add: handle_dropped_late [OF before au after2] finish_fields)
  ultimately show ?thesis by (simp add: same)
qed

subsection \<open>A failed attachment download\<close>

lemma inferPlaceholder_nonempty: "inferPlaceholder attachment \<noteq> []"
  by (simp add: inferPlaceholder_def Let_def)

lemma baseText_with_attachment: "attachments m = attachment # others \<Longrightarrow> baseText m \<noteq> []"
  using inferPlaceholder_nonempty [of attachment]
  by (simp add: baseText_def resolveDiscordMessageText_def strOr_def)

lemma resolveMedia_failed:
  "attachments m = attachment # others \<Longrightarrow> w_fetch w (att_url attachment) = Inr res
     \<Longrightarrow> \<not> res_ok res \<Longrightarrow> resolveMedia w m n = Inl (DownloadFailed (res_status res))"
  by (simp add: resolveMedia_def)

lemma runTurn_media_failed:
  assumes "resolveMedia w m (mediaMaxBytes cfg) = Inl err"
  shows "hr_calls (runTurn cfg w h m a) = [] \<and> hr_generated (runTurn cfg w h m a) = None
       \<and> hr_histories (runTurn cfg w h m a) = h
       \<and> (resolveDiscordSystemEvent m = None
            \<longrightarrow> hr_outcome (runTurn cfg w h m a) = HandlerFailed err)"
  using assms by (simp add: runTurn_def finish_def split: option.splits)


text \<open>
  Claim C7, as the code has it. When the download of the first attachment is answered
  with a status outside 200 to 299, the handler makes no call of \<open>sendMessageDiscord\<close> and
  no call of \<open>getReplyFromConfig\<close>, and a message that passed the gates and is not a
  system event ends with the download error. The history append comes before the
  download: for a direct message the history map is as before, but for a guild message
  with \<open>historyLimit > 0\<close> that passed the gates before the append, the entry of this
  message (its text, or the placeholder of the attachment) is in the history afterwards.
\<close>

theorem failed_download_aborts:
  assumes "attachments m = attachment # others"
    and "w_fetch w (att_url attachment) = Inr res" and "\<not> res_ok res"
  shows "hr_calls (handleMessageCreate cfg w h m) = []
       \<and> hr_generated (handleMessageCreate cfg w h m) = None
       \<and> (\<not> isGuildMessage m \<longrightarrow> hr_histories (handleMessageCreate cfg w h m) = h)
       \<and> (gateBeforeHistory cfg m = None \<and> author m = Some a \<longrightarrow>
            hr_histories (handleMessageCreate cfg w h m) = appendHistory cfg h m a)
       \<and> (gateBeforeHistory cfg m = None \<and> author m = Some a \<and> isGuildMessage m
            \<and> historyLimit cfg > 0 \<longrightarrow>
            historyOf (hr_histories (handleMessageCreate cfg w h m)) (channelId m)
              = drop (length (historyOf h (channelId m)) + 1 - historyLimit cfg)
                  (historyOf h (channelId m) @ [historyEntryOf m a]))
       \<and> (gateBeforeHistory cfg m = None \<and> author m = Some a
            \<and> gateAfterHistory cfg w m a = None \<and> resolveDiscordSystemEvent m = None \<longrightarrow>
            hr_outcome (handleMessageCreate cfg w h m)
              = HandlerFailed (DownloadFailed (res_status res)))"
proof (cases "gateBeforeHistory cfg m")
  case (Some reason)
  then show ?thesis by (simp add: handle_dropped_early finish_fields)
next
  case None
  then obtain b where b: "author m = Some b" using gate_has_author by blast
  have failed: "resolveMedia w m (mediaMaxBytes cfg) = Inl (DownloadFailed (res_status res))"
    using assms by (rule resolveMedia_failed)
  have textBearing: "baseText m \<noteq> []" using assms(1) by (rule baseText_with_attachment)
  show ?thesis
  proof (cases "gateAfterHistory cfg w m b")
    case (Some reason)
    with None b textBearing show ?thesis
      by (auto simp: handle_dropped_late [OF None b Some] finish_fields
            appendHistory_not_guild appendHistory_same)
  next
    case noDrop: None
    with None b textBearing
         runTurn_media_failed [OF failed, of "appendHistory cfg h m b" b]
    show ?thesis
      by (auto simp: handle_admitted [OF None b noDrop] appendHistory_not_guild
            appendHistory_same)
  qed
qed

lemma historyOf_empty: "historyOf Map.empty chanId = []"
  by (simp add: historyOf_def)

lemma attachment_facts:
  "attachments attachmentMessage
     = \<lparr>att_url = ''http://cdn/file.png'', att_contentType = Some ''image/png'',
         att_name = Some ''file.png''\<rparr> # []
   \<and> w_fetch exampleWorld ''http://cdn/file.png''
       = Inr \<lparr>res_status = 404, res_contentType = None, res_body = []\<rparr>
   \<and> \<not> res_ok \<lparr>res_status = 404, res_contentType = None, res_body = []\<rparr>
   \<and> author attachmentMessage = Some exampleAuthor \<and> isGuildMessage attachmentMessage
   \<and> channelId attachmentMessage = ''c1'' \<and> historyLimit defaultSettings = 20
   \<and> resolveDiscordSystemEvent attachmentMessage = None"
  by (simp add: ex_defs res_ok_def isGuildMessage_def resolveDiscordSystemEvent_def
        systemAction_def orDefault_def orElse_def)

lemma attachment_gateBefore: "gateBeforeHistory defaultSettings attachmentMessage = None"
  by (simp add: gateBeforeHistory_def msg_defs ex_defs)

lemma attachment_gateAfter:
  "gateAfterHistory defaultSettings exampleWorld attachmentMessage exampleAuthor = None"
  by (simp add: gateAfterHistory_def msg_defs ex_defs)

theorem failed_download_aborts_witness:
  "attachments attachmentMessage
     = \<lparr>att_url = ''http://cdn/file.png'', att_contentType = Some ''image/png'',
         att_name = Some ''file.png''\<rparr> # []
   \<and> w_fetch exampleWorld ''http://cdn/file.png''
       = Inr \<lparr>res_status = 404, res_contentType = None, res_body = []\<rparr>
   \<and> \<not> res_ok \<lparr>res_status = 404, res_contentType = None, res_body = []\<rparr>
   \<and> gateBeforeHistory defaultSettings attachmentMessage = None
   \<and> gateAfterHistory defaultSettings exampleWorld attachmentMessage exampleAuthor = None
   \<and> hr_calls (handleMessageCreate defaultSettings exampleWorld Map.empty attachmentMessage) = []
   \<and> hr_generated (handleMessageCreate defaultSettings exampleWorld Map.empty
                     attachmentMessage) = None
   \<and> hr_outcome (handleMessageCreate defaultSettings exampleWorld Map.empty attachmentMessage)
       = HandlerFailed (DownloadFailed 404)
   \<and> historyOf (hr_histories (handleMessageCreate defaultSettings exampleWorld Map.empty
                                attachmentMessage)) ''c1''
       = [historyEntryOf attachmentMessage exampleAuthor]"
  using attachment_facts attachment_gateBefore attachment_gateAfter
        failed_download_aborts
          [where m = attachmentMessage and w = exampleWorld and cfg = defaultSettings
             and h = Map.empty and a = exampleAuthor and others = "[]"
             and res = "\<lparr>res_status = 404, res_contentType = None, res_body = []\<rparr>"
             and attachment = "\<lparr>att_url = ''http://cdn/file.png'',
                                  att_contentType = Some ''image/png'',
                                  att_name = Some ''file.png''\<rparr>"]
  by (clarsimp simp: historyOf_empty)


text \<open>
  Claim C7 as stated fails for guild messages: the turn aborts with the download error,
  and the history of the channel, empty before, holds the entry of this event afterwards.
\<close>

theorem failed_download_keeps_history_entry:
  "hr_outcome (handleMessageCreate defaultSettings exampleWorld Map.empty attachmentMessage)
     = HandlerFailed (DownloadFailed 404)
   \<and> historyOf Map.empty ''c1'' = []
   \<and> historyOf (hr_histories (handleMessageCreate defaultSettings exampleWorld Map.empty
                                attachmentMessage)) ''c1''
       = [\<lparr>he_sender = ''alice#1'', he_body = ''hello'', he_timestamp = Some 1000,
           he_messageId = Some ''m1''\<rparr>]"
proof -
  have au: "author attachmentMessage = Some exampleAuthor" by (simp add: ex_defs)
  have failed: "resolveMedia exampleWorld attachmentMessage (mediaMaxBytes defaultSettings)
                  = Inl (DownloadFailed 404)"
    by (simp add: resolveMedia_def ex_defs res_ok_def)
  have entry: "historyOf (appendHistory defaultSettings Map.empty attachmentMessage exampleAuthor)
                 ''c1''
               = [\<lparr>he_sender = ''alice#1'', he_body = ''hello'', he_timestamp = Some 1000,
                   he_messageId = Some ''m1''\<rparr>]"
    by (simp add: appendHistory_def historyOf_def historyEntryOf_def Let_def msg_defs ex_defs
          str_defs shiftWhileOver_drop)
  show ?thesis
    using runTurn_media_failed [OF failed, of
            "appendHistory defaultSettings Map.empty attachmentMessage exampleAuthor"
            exampleAuthor]
          attachment_facts entry
    by (simp add: handle_admitted [OF attachment_gateBefore au attachment_gateAfter]
          historyOf_def)
qed

subsection \<open>The history reset after a turn\<close>

lemma generateAndDeliver_thrown:
  "w_getReplyFromConfig w ctx = Thrown blocks
     \<Longrightarrow> hr_outcome (generateAndDeliver cfg w h m ctx route) = HandlerFailed GenerationFailed
         \<and> hr_histories (generateAndDeliver cfg w h m ctx route) = h"
  by (simp add: generateAndDeliver_def Let_def)

lemma generateAndDeliver_silent:
  "w_getReplyFromConfig w ctx = Returned blocks rr \<Longrightarrow> repliesOf rr = []
     \<Longrightarrow> hr_outcome (generateAndDeliver cfg w h m ctx route) = NoReplies
         \<and> hr_histories (generateAndDeliver cfg w h m ctx route)
             = clearedHistories cfg h m (\<not> isDirectMessage m)
                 (blocksReplied w (ctx_To ctx) (replyToMode cfg) (textLimit cfg) blocks)"
  by (simp add: generateAndDeliver_def Let_def blocksReplied_def)

lemma generateAndDeliver_final:
  "w_getReplyFromConfig w ctx = Returned blocks rr \<Longrightarrow> repliesOf rr \<noteq> []
     \<Longrightarrow> (if snd (deliverReplies (w_chunkText w) (w_sendOk w) (repliesOf rr) (ctx_To ctx)
                     (replyToMode cfg) (textLimit cfg)
                     (snd (sendBlockReplies w (ctx_To ctx) (replyToMode cfg) (textLimit cfg)
                             blocks (False, []))))
          then hr_outcome (generateAndDeliver cfg w h m ctx route) = Delivered
               \<and> hr_histories (generateAndDeliver cfg w h m ctx route)
                   = clearedHistories cfg h m (\<not> isDirectMessage m) True
          else hr_outcome (generateAndDeliver cfg w h m ctx route) = HandlerFailed DeliveryFailed
               \<and> hr_histories (generateAndDeliver cfg w h m ctx route) = h)"
  by (simp add: generateAndDeliver_def Let_def)

lemma generateAndDeliver_reset:
  "(hr_outcome (generateAndDeliver cfg w h m ctx route) = Delivered \<longrightarrow>
      hr_histories (generateAndDeliver cfg w h m ctx route)
        = clearedHistories cfg h m (\<not> isDirectMessage m) True)
   \<and> (hr_outcome (generateAndDeliver cfg w h m ctx route) = NoReplies \<longrightarrow>
        (\<forall>blocks rr. w_getReplyFromConfig w ctx = Returned blocks rr \<longrightarrow>
           hr_histories (generateAndDeliver cfg w h m ctx route)
             = clearedHistories cfg h m (\<not> isDirectMessage m)
                 (blocksReplied w (ctx_To ctx) (replyToMode cfg) (textLimit cfg) blocks)))
   \<and> (hr_outcome (generateAndDeliver cfg w h m ctx route) \<noteq> Delivered
        \<and> hr_outcome (generateAndDeliver cfg w h m ctx route) \<noteq> NoReplies \<longrightarrow>
        hr_histories (generateAndDeliver cfg w h m ctx route) = h)"
proof (cases "w_getReplyFromConfig w ctx")
  case (Thrown blocks)
  then show ?thesis using generateAndDeliver_thrown [of w ctx blocks cfg h m route] by simp
next
  case (Returned blocks rr)
  show ?thesis
  proof (cases "repliesOf rr = []")
    case True
    with Returned generateAndDeliver_silent [of w ctx blocks rr cfg h m route]
    show ?thesis by simp
  next
    case False
    with Returned generateAndDeliver_final [of w ctx blocks rr cfg h m route]
    show ?thesis by (auto split: if_splits)
  qed
qed

lemma runTurn_cases:
  "(hr_generated (runTurn cfg w h m a) = None \<and> hr_histories (runTurn cfg w h m a) = h
      \<and> hr_outcome (runTurn cfg w h m a) \<noteq> Delivered
      \<and> hr_outcome (runTurn cfg w h m a) \<noteq> NoReplies)
   \<or> (\<exists>ctx route. runTurn cfg w h m a = generateAndDeliver cfg w h m ctx route)"
  by (auto simp: runTurn_def Let_def finish_def split: option.splits sum.splits)

lemma handle_cases:
  "(hr_generated (handleMessageCreate cfg w h m) = None
      \<and> hr_histories (handleMessageCreate cfg w h m) = afterAppend cfg h m
      \<and> hr_outcome (handleMessageCreate cfg w h m) \<noteq> Delivered
      \<and> hr_outcome (handleMessageCreate cfg w h m) \<noteq> NoReplies)
   \<or> (\<exists>ctx route. handleMessageCreate cfg w h m
                      = generateAndDeliver cfg w (afterAppend cfg h m) m ctx route)"
proof (cases "gateBeforeHistory cfg m")
  case (Some reason)
  then show ?thesis by (simp add: handle_dropped_early finish_fields afterAppend_def)
next
  case None
  then obtain a where a: "author m = Some a" using gate_has_author by blast
  from None a have aa: "afterAppend cfg h m = appendHistory cfg h m a"
    by (simp add: afterAppend_def)
  show ?thesis
  proof (cases "gateAfterHistory cfg w m a")
    case (Some reason)
    then show ?thesis
      by (simp add: handle_dropped_late [OF None a Some] finish_fields aa)
  next
    case noDrop: None
    show ?thesis
      unfolding handle_admitted [OF None a noDrop] aa
      by (rule runTurn_cases)
  qed
qed


text \<open>
  Claim C3, as the code has it, for a guild turn with \<open>historyLimit > 0\<close>. The outcome is
  \<open>Delivered\<close> exactly when the final reply list is not empty and its call of
  \<open>deliverReplies\<close> returns, and \<open>NoReplies\<close> exactly when the final list is empty. When
  the outcome is \<open>Delivered\<close> and a message has gone out in the turn, the history of the
  channel is reset to empty. When generation returns no final payload (outcome
  \<open>NoReplies\<close>), the history is reset when the delivery of a block reply returned and a
  message has gone out, and it is left as it was after the append when no delivery of a
  block reply returned, so in a silent turn without block replies. In every other case (a
  drop, a system event, a thrown error in the download, the generation or the final
  delivery, also after earlier payloads went out) the history is left as it was after the
  append. A turn whose delivery returns without any message going out is left open here.
\<close>

theorem history_reset:
  "(hr_generated (handleMessageCreate cfg w h m) = Some ctx
      \<and> w_getReplyFromConfig w ctx = Returned blocks rr \<longrightarrow>
      (hr_outcome (handleMessageCreate cfg w h m) = Delivered
         \<longleftrightarrow> repliesOf rr \<noteq> []
             \<and> snd (deliverReplies (w_chunkText w) (w_sendOk w) (repliesOf rr) (ctx_To ctx)
                      (replyToMode cfg) (textLimit cfg)
                      (snd (sendBlockReplies w (ctx_To ctx) (replyToMode cfg) (textLimit cfg)
                              blocks (False, [])))))
      \<and> (hr_outcome (handleMessageCreate cfg w h m) = NoReplies \<longleftrightarrow> repliesOf rr = []))
   \<and> (hr_outcome (handleMessageCreate cfg w h m) = Delivered
      \<and> somethingSent w (hr_calls (handleMessageCreate cfg w h m))
      \<and> isGuildMessage m \<and> \<not> isDirectMessage m \<and> historyLimit cfg > 0 \<longrightarrow>
      hr_histories (handleMessageCreate cfg w h m) = (afterAppend cfg h m)(channelId m \<mapsto> []))
   \<and> (hr_outcome (handleMessageCreate cfg w h m) = NoReplies
        \<and> hr_generated (handleMessageCreate cfg w h m) = Some ctx
        \<and> w_getReplyFromConfig w ctx = Returned blocks rr
        \<and> blocksReplied w (ctx_To ctx) (replyToMode cfg) (textLimit cfg) blocks
        \<and> somethingSent w (hr_calls (handleMessageCreate cfg w h m))
        \<and> isGuildMessage m \<and> \<not> isDirectMessage m \<and> historyLimit cfg > 0 \<longrightarrow>
        hr_histories (handleMessageCreate cfg w h m) = (afterAppend cfg h m)(channelId m \<mapsto> []))
   \<and> (hr_outcome (handleMessageCreate cfg w h m) = NoReplies
        \<and> hr_generated (handleMessageCreate cfg w h m) = Some ctx
        \<and> w_getReplyFromConfig w ctx = Returned blocks rr
        \<and> \<not> blocksReplied w (ctx_To ctx) (replyToMode cfg) (textLimit cfg) blocks \<longrightarrow>
        hr_histories (handleMessageCreate cfg w h m) = afterAppend cfg h m)
   \<and> (hr_outcome (handleMessageCreate cfg w h m) = NoReplies
        \<and> hr_generated (handleMessageCreate cfg w h m) = Some ctx
        \<and> w_getReplyFromConfig w ctx = Returned [] rr \<longrightarrow>
        hr_histories (handleMessageCreate cfg w h m) = afterAppend cfg h m)
   \<and> (hr_outcome (handleMessageCreate cfg w h m) \<noteq> Delivered
        \<and> hr_outcome (handleMessageCreate cfg w h m) \<noteq> NoReplies \<longrightarrow>
        hr_histories (handleMessageCreate cfg w h m) = afterAppend cfg h m)"
proof -
  consider (early) "hr_generated (handleMessageCreate cfg w h m) = None"
      "hr_histories (handleMessageCreate cfg w h m) = afterAppend cfg h m"
      "hr_outcome (handleMessageCreate cfg w h m) \<noteq> Delivered"
      "hr_outcome (handleMessageCreate cfg w h m) \<noteq> NoReplies"
    | (turn) c route where
      "handleMessageCreate cfg w h m = generateAndDeliver cfg w (afterAppend cfg h m) m c route"
    using handle_cases [of cfg w h m] by auto
  then show ?thesis
  proof cases
    case early
    then show ?thesis by simp
  next
    case turn
    let ?r = "generateAndDeliver cfg w (afterAppend cfg h m) m c route"
    have silent: "blocksReplied w (ctx_To c) (replyToMode cfg) (textLimit cfg) [] = False"
      by (simp add: blocksReplied_def)
    have meaning:
      "hr_generated ?r = Some ctx \<and> w_getReplyFromConfig w ctx = Returned blocks rr \<longrightarrow>
       (hr_outcome ?r = Delivered
          \<longleftrightarrow> repliesOf rr \<noteq> []
              \<and> snd (deliverReplies (w_chunkText w) (w_sendOk w) (repliesOf rr) (ctx_To ctx)
                       (replyToMode cfg) (textLimit cfg)
                       (snd (sendBlockReplies w (ctx_To ctx) (replyToMode cfg) (textLimit cfg)
                               blocks (False, [])))))
       \<and> (hr_outcome ?r = NoReplies \<longleftrightarrow> repliesOf rr = [])"
    proof (intro impI, elim conjE)
      assume "hr_generated ?r = Some ctx"
        and gen: "w_getReplyFromConfig w ctx = Returned blocks rr"
      then have c: "c = ctx" by (simp add: generated_ctx)
      show "(hr_outcome ?r = Delivered
          \<longleftrightarrow> repliesOf rr \<noteq> []
              \<and> snd (deliverReplies (w_chunkText w) (w_sendOk w) (repliesOf rr) (ctx_To ctx)
                       (replyToMode cfg) (textLimit cfg)
                       (snd (sendBlockReplies w (ctx_To ctx) (replyToMode cfg) (textLimit cfg)
                               blocks (False, [])))))
       \<and> (hr_outcome ?r = NoReplies \<longleftrightarrow> repliesOf rr = [])"
      proof (cases "repliesOf rr = []")
        case True
        with gen generateAndDeliver_silent [of w ctx blocks rr cfg "afterAppend cfg h m" m route]
        show ?thesis unfolding c by simp
      next
        case False
        with gen generateAndDeliver_final [of w ctx blocks rr cfg "afterAppend cfg h m" m route]
        show ?thesis unfolding c by (auto split: if_splits)
      qed
    qed
    have resets:
      "(hr_outcome ?r = Delivered
          \<and> isGuildMessage m \<and> \<not> isDirectMessage m \<and> historyLimit cfg > 0 \<longrightarrow>
          hr_histories ?r = (afterAppend cfg h m)(channelId m \<mapsto> []))
       \<and> (hr_outcome ?r = NoReplies \<and> hr_generated ?r = Some ctx
            \<and> w_getReplyFromConfig w ctx = Returned blocks rr \<longrightarrow>
            hr_histories ?r
              = (if isGuildMessage m \<and> \<not> isDirectMessage m \<and> historyLimit cfg > 0
                    \<and> blocksReplied w (ctx_To ctx) (replyToMode cfg) (textLimit cfg) blocks
                 then (afterAppend cfg h m)(channelId m \<mapsto> []) else afterAppend cfg h m))
       \<and> (hr_outcome ?r = NoReplies \<and> hr_generated ?r = Some ctx
            \<and> w_getReplyFromConfig w ctx = Returned [] rr \<longrightarrow>
            hr_histories ?r = afterAppend cfg h m)
       \<and> (hr_outcome ?r \<noteq> Delivered \<and> hr_outcome ?r \<noteq> NoReplies
            \<longrightarrow> hr_histories ?r = afterAppend cfg h m)"
      using generateAndDeliver_reset [of cfg w "afterAppend cfg h m" m c route] silent
      by (auto simp: generated_ctx clearedHistories_def)
    have replied:
      "hr_outcome ?r = NoReplies \<and> hr_generated ?r = Some ctx
        \<and> w_getReplyFromConfig w ctx = Returned blocks rr
        \<and> blocksReplied w (ctx_To ctx) (replyToMode cfg) (textLimit cfg) blocks
        \<and> isGuildMessage m \<and> \<not> isDirectMessage m \<and> historyLimit cfg > 0 \<longrightarrow>
        hr_histories ?r = (afterAppend cfg h m)(channelId m \<mapsto> [])"
      using resets by simp
    have unreplied:
      "hr_outcome ?r = NoReplies \<and> hr_generated ?r = Some ctx
        \<and> w_getReplyFromConfig w ctx = Returned blocks rr
        \<and> \<not> blocksReplied w (ctx_To ctx) (replyToMode cfg) (textLimit cfg) blocks \<longrightarrow>
        hr_histories ?r = afterAppend cfg h m"
      using resets by simp
    from meaning resets replied unreplied show ?thesis unfolding turn by (intro conjI) blast+
  qed
qed

lemma default_mode: "defaultSettings\<lparr>replyToMode := ModeOff\<rparr> = defaultSettings"
  by (simp add: ex_defs orDefault_def orElse_def)

lemma example_turn_world:
  assumes "w_botId w = Some ''bot''"
  shows "handleMessageCreate defaultSettings w h exampleGuildMessage
   = generateAndDeliver defaultSettings w
       (appendHistory defaultSettings h exampleGuildMessage exampleAuthor) exampleGuildMessage
       (ctxPayloadOf defaultSettings w
          (appendHistory defaultSettings h exampleGuildMessage exampleAuthor)
          exampleGuildMessage exampleAuthor None ''hello'')
       None"
proof -
  have before: "gateBeforeHistory defaultSettings exampleGuildMessage = None"
    using example_gateBefore [of ModeOff] by (simp add: default_mode)
  have au: "author exampleGuildMessage = Some exampleAuthor" by (simp add: ex_defs)
  have after: "gateAfterHistory defaultSettings w exampleGuildMessage exampleAuthor = None"
    using assms by (simp add: gateAfterHistory_def msg_defs ex_defs)
  have sys: "resolveDiscordSystemEvent exampleGuildMessage = None"
    by (simp add: resolveDiscordSystemEvent_def systemAction_def ex_defs)
  have med: "resolveMedia w exampleGuildMessage (mediaMaxBytes defaultSettings) = Inr None"
    by (simp add: resolveMedia_def ex_defs)
  have mtext: "messageTextOf exampleGuildMessage None = ''hello''"
    by (simp add: messageTextOf_def ex_defs str_defs)
  have dm: "\<not> isDirectMessage exampleGuildMessage" by (simp add: msg_defs ex_defs)
  show ?thesis
    using turn_reaches_generation [OF before au after sys med, of h] mtext dm by simp
qed

lemma example_afterAppend:
  "afterAppend defaultSettings h exampleGuildMessage
     = appendHistory defaultSettings h exampleGuildMessage exampleAuthor"
  using example_gateBefore [of ModeOff]
  by (simp add: afterAppend_def default_mode exampleGuildMessage_def)

lemma example_appended:
  "historyOf (appendHistory defaultSettings (Map.empty(''c1'' \<mapsto> [firstEntry]))
                exampleGuildMessage exampleAuthor) ''c1''
     = [firstEntry, historyEntryOf exampleGuildMessage exampleAuthor]"
proof -
  have "historyLimit defaultSettings = 20" by (simp add: ex_defs orDefault_def orElse_def)
  then show ?thesis
    using example_text_bearing
          appendHistory_same [of exampleGuildMessage defaultSettings
                                 "Map.empty(''c1'' \<mapsto> [firstEntry])" exampleAuthor]
    by (simp add: historyOf_def)
qed

lemma example_guild_turn:
  "isGuildMessage exampleGuildMessage \<and> \<not> isDirectMessage exampleGuildMessage
   \<and> historyLimit defaultSettings > 0 \<and> channelId exampleGuildMessage = ''c1''
   \<and> replyToMode defaultSettings = ModeOff \<and> textLimit defaultSettings = 2000"
  by (simp add: msg_defs ex_defs)

lemma example_outcomes:
  "hr_outcome (handleMessageCreate defaultSettings answeringWorld h exampleGuildMessage)
     = Delivered
   \<and> hr_outcome (handleMessageCreate defaultSettings exampleWorld h exampleGuildMessage)
       = NoReplies
   \<and> hr_generated (handleMessageCreate defaultSettings exampleWorld h exampleGuildMessage)
       = Some (ctxPayloadOf defaultSettings exampleWorld
                 (appendHistory defaultSettings h exampleGuildMessage exampleAuthor)
                 exampleGuildMessage exampleAuthor None ''hello'')"
proof -
  have w1: "w_botId answeringWorld = Some ''bot''" by (simp add: ex_defs)
  have w2: "w_botId exampleWorld = Some ''bot''" by (simp add: ex_defs)
  have "hr_outcome (handleMessageCreate defaultSettings answeringWorld h exampleGuildMessage)
          = Delivered"
    unfolding example_turn_world [OF w1]
    using example_guild_turn
    by (simp add: generateAndDeliver_def deliver_defs Let_def ctx_To_of answeringWorld_def
          textPayload_def exampleWorld_def)
  moreover have "hr_outcome (handleMessageCreate defaultSettings exampleWorld h
                               exampleGuildMessage) = NoReplies"
    unfolding example_turn_world [OF w2]
    by (simp add: generateAndDeliver_def deliver_defs Let_def exampleWorld_def)
  ultimately show ?thesis
    by (simp add: example_turn_world [OF w2] generated_ctx)
qed

lemma unmentioned_dropped:
  "hr_outcome (handleMessageCreate defaultSettings answeringWorld h unmentionedMessage)
     = Dropped NoMention"
proof -
  have au: "author unmentionedMessage = Some exampleAuthor" by (simp add: ex_defs)
  have "gateAfterHistory defaultSettings answeringWorld unmentionedMessage exampleAuthor
          = Some NoMention"
    using unmentioned_facts by (simp add: gateAfterHistory_def mentionGateDrops_def)
  then show ?thesis
    by (simp add: handle_dropped_late [OF unmentioned_gateBefore au] finish_fields)
qed

lemma unmentioned_appended:
  "historyOf (afterAppend defaultSettings (Map.empty(''c1'' \<mapsto> [firstEntry]))
                unmentionedMessage) ''c1''
     = [firstEntry, historyEntryOf unmentionedMessage exampleAuthor]"
proof -
  have lim: "historyLimit defaultSettings = 20" by (simp add: ex_defs orDefault_def orElse_def)
  have tb: "isGuildMessage unmentionedMessage \<and> baseText unmentionedMessage \<noteq> []
              \<and> channelId unmentionedMessage = ''c1''
              \<and> author unmentionedMessage = Some exampleAuthor"
    by (simp add: msg_defs ex_defs str_defs)
  show ?thesis
    using lim tb unmentioned_gateBefore
          appendHistory_same [of unmentionedMessage defaultSettings
                                 "Map.empty(''c1'' \<mapsto> [firstEntry])" exampleAuthor]
    by (simp add: afterAppend_def historyOf_def)
qed


lemma example_sent:
  "somethingSent answeringWorld
     (hr_calls (handleMessageCreate defaultSettings answeringWorld h exampleGuildMessage))"
proof -
  have w1: "w_botId answeringWorld = Some ''bot''" by (simp add: ex_defs)
  show ?thesis
    unfolding example_turn_world [OF w1]
    using example_guild_turn
    by (simp add: generateAndDeliver_def deliver_defs Let_def ctx_To_of answeringWorld_def
          textPayload_def exampleWorld_def somethingSent_def)
qed

text \<open>Three runs on a channel that holds one earlier entry: an answered turn, a silent
  turn, and a message dropped by the mention gate.\<close>

theorem history_reset_witness:
  "hr_outcome (handleMessageCreate defaultSettings answeringWorld
                 (Map.empty(''c1'' \<mapsto> [firstEntry])) exampleGuildMessage) = Delivered
   \<and> somethingSent answeringWorld
         (hr_calls (handleMessageCreate defaultSettings answeringWorld
                      (Map.empty(''c1'' \<mapsto> [firstEntry])) exampleGuildMessage))
   \<and> isGuildMessage exampleGuildMessage \<and> \<not> isDirectMessage exampleGuildMessage
   \<and> historyLimit defaultSettings > 0
   \<and> historyOf (hr_histories (handleMessageCreate defaultSettings answeringWorld
                                (Map.empty(''c1'' \<mapsto> [firstEntry])) exampleGuildMessage)) ''c1''
       = []
   \<and> hr_outcome (handleMessageCreate defaultSettings exampleWorld
                   (Map.empty(''c1'' \<mapsto> [firstEntry])) exampleGuildMessage) = NoReplies
   \<and> hr_generated (handleMessageCreate defaultSettings exampleWorld
                     (Map.empty(''c1'' \<mapsto> [firstEntry])) exampleGuildMessage) \<noteq> None
   \<and> historyOf (hr_histories (handleMessageCreate defaultSettings exampleWorld
                                (Map.empty(''c1'' \<mapsto> [firstEntry])) exampleGuildMessage)) ''c1''
       = [firstEntry, historyEntryOf exampleGuildMessage exampleAuthor]
   \<and> hr_outcome (handleMessageCreate defaultSettings answeringWorld
                   (Map.empty(''c1'' \<mapsto> [firstEntry])) unmentionedMessage) = Dropped NoMention
   \<and> historyOf (hr_histories (handleMessageCreate defaultSettings answeringWorld
                                (Map.empty(''c1'' \<mapsto> [firstEntry])) unmentionedMessage)) ''c1''
       = [firstEntry, historyEntryOf unmentionedMessage exampleAuthor]"
proof -
  let ?h = "Map.empty(''c1'' \<mapsto> [firstEntry])"
  let ?ctx = "ctxPayloadOf defaultSettings exampleWorld
                 (appendHistory defaultSettings ?h exampleGuildMessage exampleAuthor)
                 exampleGuildMessage exampleAuthor None ''hello''"
  note outcomes = example_outcomes [of ?h]
  have silent: "w_getReplyFromConfig exampleWorld ?ctx = Returned [] NoReply"
    by (simp add: exampleWorld_def)
  have delivered: "hr_histories (handleMessageCreate defaultSettings answeringWorld ?h
                                   exampleGuildMessage)
                     = (afterAppend defaultSettings ?h exampleGuildMessage)(''c1'' \<mapsto> [])"
    using outcomes example_guild_turn example_sent [of ?h]
          history_reset [where cfg = defaultSettings and w = answeringWorld and h = ?h
                           and m = exampleGuildMessage and ctx = ?ctx and blocks = "[]"
                           and rr = NoReply]
    by simp
  have kept: "hr_histories (handleMessageCreate defaultSettings exampleWorld ?h
                              exampleGuildMessage)
                = afterAppend defaultSettings ?h exampleGuildMessage"
    using outcomes silent
          history_reset [where cfg = defaultSettings and w = exampleWorld and h = ?h
                           and m = exampleGuildMessage and ctx = ?ctx and blocks = "[]"
                           and rr = NoReply]
    by meson
  have dropped: "hr_histories (handleMessageCreate defaultSettings answeringWorld ?h
                                 unmentionedMessage)
                   = afterAppend defaultSettings ?h unmentionedMessage"
    using unmentioned_dropped [of ?h]
          history_reset [where cfg = defaultSettings and w = answeringWorld and h = ?h
                           and m = unmentionedMessage and ctx = ?ctx and blocks = "[]"
                           and rr = NoReply]
    by simp
  show ?thesis
    using outcomes example_guild_turn unmentioned_dropped [of ?h] unmentioned_appended
          example_appended example_sent [of ?h]
    by (simp add: delivered kept dropped example_afterAppend historyOf_def)
qed

text \<open>
  Claim C3 as stated fails. The generator returns two texts, the send of the first
  resolves and the send of the second throws: a reply payload has been delivered, the
  handler's \<open>catch\<close> takes over before \<open>didSendReply\<close> is set, and the history of the
  channel is not reset.
\<close>

theorem reset_follows_delivery_call:
  "isGuildMessage exampleGuildMessage \<and> historyLimit defaultSettings > 0
   \<and> map ob_text (hr_calls (handleMessageCreate defaultSettings failingSendWorld
                              (Map.empty(''c1'' \<mapsto> [firstEntry])) exampleGuildMessage))
       = [''a'', ''b'']
   \<and> w_sendOk failingSendWorld 0 \<and> \<not> w_sendOk failingSendWorld 1
   \<and> somethingSent failingSendWorld
         (hr_calls (handleMessageCreate defaultSettings failingSendWorld
                      (Map.empty(''c1'' \<mapsto> [firstEntry])) exampleGuildMessage))
   \<and> hr_outcome (handleMessageCreate defaultSettings failingSendWorld
                   (Map.empty(''c1'' \<mapsto> [firstEntry])) exampleGuildMessage)
       = HandlerFailed DeliveryFailed
   \<and> historyOf (hr_histories (handleMessageCreate defaultSettings failingSendWorld
                                (Map.empty(''c1'' \<mapsto> [firstEntry])) exampleGuildMessage)) ''c1''
       = [firstEntry, historyEntryOf exampleGuildMessage exampleAuthor]"
proof -
  have w2: "w_botId failingSendWorld = Some ''bot''" by (simp add: ex_defs)
  have r2: "map ob_text (hr_calls (handleMessageCreate defaultSettings failingSendWorld
                              (Map.empty(''c1'' \<mapsto> [firstEntry])) exampleGuildMessage))
       = [''a'', ''b'']
      \<and> hr_outcome (handleMessageCreate defaultSettings failingSendWorld
                   (Map.empty(''c1'' \<mapsto> [firstEntry])) exampleGuildMessage)
       = HandlerFailed DeliveryFailed
      \<and> hr_histories (handleMessageCreate defaultSettings failingSendWorld
                       (Map.empty(''c1'' \<mapsto> [firstEntry])) exampleGuildMessage)
         = appendHistory defaultSettings (Map.empty(''c1'' \<mapsto> [firstEntry]))
             exampleGuildMessage exampleAuthor"
    unfolding example_turn_world [OF w2]
    using example_guild_turn
    by (simp add: generateAndDeliver_def deliver_defs Let_def ctx_To_of clearedHistories_def
          failingSendWorld_def textPayload_def exampleWorld_def)
  have sent: "somethingSent failingSendWorld
         (hr_calls (handleMessageCreate defaultSettings failingSendWorld
                      (Map.empty(''c1'' \<mapsto> [firstEntry])) exampleGuildMessage))"
    unfolding example_turn_world [OF w2]
    using example_guild_turn
    by (simp add: generateAndDeliver_def deliver_defs Let_def ctx_To_of clearedHistories_def
          failingSendWorld_def textPayload_def exampleWorld_def somethingSent_def)
  have oks: "w_sendOk failingSendWorld 0 \<and> \<not> w_sendOk failingSendWorld 1"
    by (simp add: ex_defs)
  from r2 sent oks example_appended example_guild_turn show ?thesis by (simp add: historyOf_def)
qed

subsection \<open>The history append comes before the gates\<close>






















end
